theory Spec2Isabelle
  imports Complex_Main "HOL-Library.Log_Nat"
begin

section \<open>JavaScript strings\<close>

text \<open>
  The services of the repository are TypeScript classes. A JavaScript string is a
  sequence of UTF-16 code units; it is modelled as a \<^typ>\<open>string\<close> with one \<^typ>\<open>char\<close>
  per code unit, so the strings of the model are those whose code units are below 256
  (U+0000 to U+00FF). On these, \<open>toLowerCase\<close> maps \<open>A\<close>..\<open>Z\<close> and the capital letters
  U+00C0 to U+00DE, the multiplication sign U+00D7 apart, to the code unit 32 above and
  leaves every other one alone; the white space of \<open>trim\<close> and of the regular expression
  class \<open>\s\<close> is tab, line feed, vertical tab, form feed, carriage return, space and the
  no-break space U+00A0; and the word characters of \<open>\w\<close> and \<open>\b\<close> are the ASCII
  letters, the digits and the underscore.
\<close>

definition upperChars :: string where
  "upperChars = ''ABCDEFGHIJKLMNOPQRSTUVWXYZ''"

definition lowerChars :: string where
  "lowerChars = ''abcdefghijklmnopqrstuvwxyz''"

definition digitChars :: string where
  "digitChars = ''0123456789''"

definition lowerChar :: "char \<Rightarrow> char" where
  "lowerChar c =
     (let n = of_char c :: nat
      in if (65 \<le> n \<and> n \<le> 90) \<or> (192 \<le> n \<and> n \<le> 222 \<and> n \<noteq> 215)
         then char_of (n + 32) else c)"

definition toLowerCase :: "string \<Rightarrow> string" where
  "toLowerCase s = map lowerChar s"

definition isSpace :: "char \<Rightarrow> bool" where
  "isSpace c = (c \<in> set [CHR '' '', CHR 0x09, CHR 0x0A, CHR 0x0B, CHR 0x0C, CHR 0x0D, CHR 0xA0])"

definition trim :: "string \<Rightarrow> string" where
  "trim s = rev (dropWhile isSpace (rev (dropWhile isSpace s)))"

text \<open>\<open>hay.includes(needle)\<close>: the needle occurs as a contiguous substring.\<close>

fun isPrefix :: "string \<Rightarrow> string \<Rightarrow> bool" where
  "isPrefix [] hay = True"
| "isPrefix (n # ns) [] = False"
| "isPrefix (n # ns) (h # hs) = (n = h \<and> isPrefix ns hs)"

fun includesStr :: "string \<Rightarrow> string \<Rightarrow> bool" where
  "includesStr [] needle = (needle = [])"
| "includesStr (h # hs) needle = (isPrefix needle (h # hs) \<or> includesStr hs needle)"

text \<open>\<open>s.replace(/^p/, '')\<close> for a literal prefix \<open>p\<close>.\<close>

definition stripPrefix :: "string \<Rightarrow> string \<Rightarrow> string" where
  "stripPrefix p s = (if isPrefix p s then drop (length p) s else s)"

text \<open>\<open>s.padStart(n, c)\<close> with a one-character filler.\<close>

definition padStart :: "nat \<Rightarrow> char \<Rightarrow> string \<Rightarrow> string" where
  "padStart n c s = replicate (n - length s) c @ s"

text \<open>
  The template literal \<open>`${n}`\<close> of a non-negative integer below \<open>10^21\<close>: its decimal
  digits, without sign, exponent or leading zero.
\<close>

fun numberToString :: "nat \<Rightarrow> string" where
  "numberToString n =
     (if n < 10 then [digitChars ! n]
      else numberToString (n div 10) @ [digitChars ! (n mod 10)])"

declare numberToString.simps [simp del]

text \<open>\<open>s.split(c)\<close> on a one-character separator.\<close>

fun splitOn :: "char \<Rightarrow> string \<Rightarrow> string list" where
  "splitOn c [] = [[]]"
| "splitOn c (x # xs) =
     (if x = c then [] # splitOn c xs
      else (case splitOn c xs of [] \<Rightarrow> [[x]] | p # ps \<Rightarrow> (x # p) # ps))"

section \<open>The SEC EDGAR client (\<open>sec-edgar-client.ts\<close>)\<close>

subsection \<open>\<open>zeroPadCIK\<close>\<close>

text \<open>
  \<^verbatim>\<open>const numeric = `${cikNumber}`.replace(/^0+/, ''); return numeric.padStart(10, '0');\<close>
  The argument is a string or a number; \<open>zeroPadCIK\<close> is the function on the string,
  \<open>zeroPadCIKNumber\<close> the one on a number, which the template literal renders first.
\<close>

definition zeroPadCIK :: "string \<Rightarrow> string" where
  "zeroPadCIK cikNumber =
     (let numeric = dropWhile (\<lambda>c. c = CHR ''0'') cikNumber
      in padStart 10 (CHR ''0'') numeric)"

definition zeroPadCIKNumber :: "nat \<Rightarrow> string" where
  "zeroPadCIKNumber cikNumber = zeroPadCIK (numberToString cikNumber)"

subsection \<open>\<open>normalizeCompanyName\<close>\<close>

text \<open>
  \<^verbatim>\<open>
  const lower = name.toLowerCase().trim();
  const cleaned = lower
    .replace(/[&.,'"()\-]/g, ' ')
    .replace(/\b(incorporated|inc|corp|corporation|ltd|limited|plc|group|holdings|co|company|s\.a\.|s\.a|sa|ag|nv|se|ab)\b/g, '')
    .replace(/\b(operations|international|aerospace|defense|systems|technologies|solutions|services|manufacturing|aviation|space|military)\b/g, '')
    .replace(/\s+/g, ' ')
    .trim();
  \<close>
  Every alternative of the two word lists consists of word characters (\<open>[A-Za-z0-9_]\<close>),
  apart from \<open>s\.a\.\<close> and \<open>s\.a\<close>, which need a dot and so never match: the first
  replacement has turned every dot into a space. Between two \<open>\b\<close> such an alternative
  matches exactly a maximal run of word characters, so each replacement deletes the
  maximal runs that are in its list. \<open>removeWordsFrom ws run s\<close> scans \<open>s\<close> with the
  run read so far in \<open>run\<close>.
\<close>

definition punctChars :: string where
  "punctChars = [CHR ''&'', CHR ''.'', CHR '','', CHR 0x27, CHR 0x22, CHR ''('', CHR '')'', CHR ''-'']"

definition isWordChar :: "char \<Rightarrow> bool" where
  "isWordChar c = (c \<in> set (lowerChars @ upperChars @ digitChars @ ''_''))"

definition corporateSuffixes :: "string list" where
  "corporateSuffixes =
     [''incorporated'', ''inc'', ''corp'', ''corporation'', ''ltd'', ''limited'', ''plc'',
      ''group'', ''holdings'', ''co'', ''company'', ''sa'', ''ag'', ''nv'', ''se'', ''ab'']"

definition genericWords :: "string list" where
  "genericWords =
     [''operations'', ''international'', ''aerospace'', ''defense'', ''systems'',
      ''technologies'', ''solutions'', ''services'', ''manufacturing'', ''aviation'',
      ''space'', ''military'']"

fun removeWordsFrom :: "string list \<Rightarrow> string \<Rightarrow> string \<Rightarrow> string" where
  "removeWordsFrom ws run [] = (if run \<in> set ws then [] else run)"
| "removeWordsFrom ws run (c # cs) =
     (if isWordChar c then removeWordsFrom ws (run @ [c]) cs
      else (if run \<in> set ws then [] else run) @ c # removeWordsFrom ws [] cs)"

definition removeWords :: "string list \<Rightarrow> string \<Rightarrow> string" where
  "removeWords ws s = removeWordsFrom ws [] s"

text \<open>\<open>s.replace(/\s+/g, ' ')\<close>; the flag says that the previous character was white space.\<close>

fun collapseFrom :: "bool \<Rightarrow> string \<Rightarrow> string" where
  "collapseFrom inSpace [] = []"
| "collapseFrom inSpace (c # cs) =
     (if isSpace c then (if inSpace then [] else [CHR '' '']) @ collapseFrom True cs
      else c # collapseFrom False cs)"

definition collapseSpaces :: "string \<Rightarrow> string" where
  "collapseSpaces s = collapseFrom False s"

definition normalizeCompanyName :: "string \<Rightarrow> string" where
  "normalizeCompanyName name =
     (let lower = trim (toLowerCase name);
          cleaned = trim (collapseSpaces (removeWords genericWords (removeWords corporateSuffixes
                      (map (\<lambda>c. if c \<in> set punctChars then CHR '' '' else c) lower))))
      in cleaned)"

text \<open>\<open>new Set(normalized.split(' ').filter(Boolean))\<close>: the set of the non-empty pieces.\<close>

definition tokenSet :: "string \<Rightarrow> string set" where
  "tokenSet normalized = set (filter (\<lambda>t. t \<noteq> []) (splitOn (CHR '' '') normalized))"

subsection \<open>\<open>jaccardSimilarity\<close> and \<open>findCompanyMatch\<close>\<close>

text \<open>
  \<^verbatim>\<open>
  const intersectionSize = new Set([...a].filter(x => b.has(x))).size;
  const unionSize = new Set([...a, ...b]).size || 1;
  return intersectionSize / unionSize;
  \<close>
  A score is the exact quotient. The code holds the quotient rounded to a double, and
  comparing the doubles of two such quotients, or a double with the literal \<open>0.8\<close>,
  agrees with comparing the exact values as long as the sets have fewer than \<open>2^50\<close>
  elements. Where the digits of the double matter, in \<open>toFixed\<close>, the rounding to a
  double is applied (\<open>toDouble\<close> below).
\<close>

definition jaccardSimilarity :: "string set \<Rightarrow> string set \<Rightarrow> rat" where
  "jaccardSimilarity a b =
     (let intersectionSize = card (Set.filter (\<lambda>x. x \<in> b) a);
          unionSize = (if card (a \<union> b) = 0 then 1 else card (a \<union> b))
      in of_nat intersectionSize / of_nat unionSize)"

record TickerEntry =
  cik_str :: nat
  te_ticker :: string
  title :: string

text \<open>
  \<^verbatim>\<open>
  let best = null;
  for (const entry of directory) {
    const titleTokens = new Set(this.normalizeCompanyName(entry.title).split(' ').filter(Boolean));
    const score = this.jaccardSimilarity(targetTokens, titleTokens);
    if (score >= 0.8 && (!best || score > best.score)) best = { entry, score };
  }
  return best;
  \<close>
\<close>

fun findBest :: "string set \<Rightarrow> (TickerEntry \<times> rat) option \<Rightarrow> TickerEntry list
    \<Rightarrow> (TickerEntry \<times> rat) option" where
  "findBest targetTokens best [] = best"
| "findBest targetTokens best (entry # directory) =
     (let titleTokens = tokenSet (normalizeCompanyName (title entry));
          score = jaccardSimilarity targetTokens titleTokens
      in if score \<ge> 8 / 10 \<and> (case best of None \<Rightarrow> True | Some b \<Rightarrow> score > snd b)
         then findBest targetTokens (Some (entry, score)) directory
         else findBest targetTokens best directory)"

definition findCompanyMatch :: "string \<Rightarrow> TickerEntry list \<Rightarrow> (TickerEntry \<times> rat) option" where
  "findCompanyMatch companyName directory =
     (let normalizedName = normalizeCompanyName companyName;
          targetTokens = tokenSet normalizedName
      in findBest targetTokens None directory)"

subsection \<open>\<open>identifyPublicCompany\<close>\<close>

text \<open>
  An awaited call of a collaborator either fulfils with a value or rejects. What was
  thrown matters only where the caller reads it.
\<close>

datatype jsError = Error string | NotAnError

definition TypeError :: jsError where
  "TypeError = Error ''TypeError''"

datatype 'a attempt = Returns 'a | Throws jsError

datatype provenance = Overrides | SecDirectory

text \<open>
  What reading a property of an override table gives: a string of the table's own, or
  the member of \<open>Object.prototype\<close> of the given name.
\<close>

datatype propertyValue = OwnString string | Inherited string

record PublicCompanyMatch =
  isPublic :: bool
  confidence :: rat
  matchedTitle :: "string option"
  pm_ticker :: "propertyValue option"
  cik :: "string option"
  source :: "provenance option"

text \<open>
  The client holds the two override tables, read once by the constructor; a missing
  file leaves the table empty. A table is a plain object (\<open>{}\<close> or the result of
  \<open>JSON.parse\<close>): its own entries are a map from keys to tickers, and behind them stands
  \<open>Object.prototype\<close>. \<open>table[key]\<close> reads the own entry when there is one and the member
  of \<open>Object.prototype\<close> of that name otherwise. It is used as a condition: an own entry
  with the empty string counts as absent, and every member of \<open>Object.prototype\<close> (a
  function, or for \<open>__proto__\<close> the prototype object itself) counts as present.
\<close>

record SECEdgarClient =
  overridesByDomain :: "string \<rightharpoonup> string"
  overridesByName :: "string \<rightharpoonup> string"

definition objectPrototypeKeys :: "string list" where
  "objectPrototypeKeys =
     [''constructor'', ''__defineGetter__'', ''__defineSetter__'', ''hasOwnProperty'',
      ''__lookupGetter__'', ''__lookupSetter__'', ''isPrototypeOf'', ''propertyIsEnumerable'',
      ''toString'', ''valueOf'', ''__proto__'', ''toLocaleString'']"

definition truthyLookup :: "(string \<rightharpoonup> string) \<Rightarrow> string \<Rightarrow> propertyValue option" where
  "truthyLookup table key =
     (case table key of
        Some v \<Rightarrow> if v = [] then None else Some (OwnString v)
      | None \<Rightarrow> if key \<in> set objectPrototypeKeys then Some (Inherited key) else None)"

text \<open>
  \<^verbatim>\<open>(website || '').toLowerCase().replace(/^https?:\/\//, '').replace(/^www\./, '').split('/')[0]\<close>
\<close>

definition domainOf :: "string option \<Rightarrow> string" where
  "domainOf website =
     (let w = toLowerCase (case website of None \<Rightarrow> [] | Some s \<Rightarrow> s);
          noScheme = (if isPrefix ''https://'' w then drop 8 w else stripPrefix ''http://'' w);
          noWww = stripPrefix ''www.'' noScheme
      in hd (splitOn (CHR ''/'') noWww))"

text \<open>
  \<open>toDouble x\<close> is the double that the code holds for a quotient \<open>x\<close>: the binary64 number
  nearest to \<open>x\<close>, the one with an even significand at a tie. For a positive \<open>x\<close> with
  \<open>2^e \<le> x < 2^(e+1)\<close> the doubles around \<open>x\<close> are the multiples of \<open>2^(e-52)\<close> (overflow
  and subnormal numbers do not arise for quotients of set sizes). \<open>floorLog2\<close> finds \<open>e\<close>
  from the bit lengths of numerator and denominator, which leave two candidates.
\<close>

definition pow2 :: "int \<Rightarrow> rat" where
  "pow2 e = (if 0 \<le> e then 2 ^ nat e else 1 / 2 ^ nat (- e))"

definition floorLog2 :: "rat \<Rightarrow> int" where
  "floorLog2 x =
     (let e = bitlen (fst (quotient_of x)) - bitlen (snd (quotient_of x))
      in if pow2 e \<le> x then e else e - 1)"

definition roundTiesToEven :: "rat \<Rightarrow> int" where
  "roundTiesToEven y =
     (let f = \<lfloor>y\<rfloor>; r = y - of_int f
      in if r < 1 / 2 then f else if 1 / 2 < r then f + 1 else if even f then f else f + 1)"

definition toDouble :: "rat \<Rightarrow> rat" where
  "toDouble x =
     (if x \<le> 0 then 0
      else (let ulp = pow2 (floorLog2 x - 52) in of_int (roundTiesToEven (x / ulp)) * ulp))"

text \<open>
  \<open>Number(score.toFixed(2))\<close>. \<open>toFixed(2)\<close> takes the integer \<open>n\<close> for which \<open>n / 100\<close> is
  closest to the exact value of the double, the larger one at a tie, and prints
  \<open>n / 100\<close> with two decimals; \<open>Number\<close> reads that numeral back. The result is given as
  the two-decimal number \<open>n / 100\<close> itself.
\<close>

definition toFixed2 :: "rat \<Rightarrow> rat" where
  "toFixed2 x = of_int \<lfloor>toDouble x * 100 + 1 / 2\<rfloor> / 100"

definition notPublic :: PublicCompanyMatch where
  "notPublic = \<lparr>isPublic = False, confidence = 0, matchedTitle = None, pm_ticker = None,
                 cik = None, source = None\<rparr>"

text \<open>
  The body of the \<open>try\<close> block. \<open>directory\<close> is what \<open>await this.loadTickerDirectory()\<close>
  gives: the entries, or a rejection (the download or the cache write failed).
\<close>

definition identifyTry :: "SECEdgarClient \<Rightarrow> TickerEntry list attempt \<Rightarrow> string \<Rightarrow> string option
    \<Rightarrow> jsError + PublicCompanyMatch" where
  "identifyTry client directory companyName website =
     (let domain = domainOf website
      in case (if domain = [] then None else truthyLookup (overridesByDomain client) domain) of
           Some t \<Rightarrow> Inr \<lparr>isPublic = True, confidence = 1, matchedTitle = Some companyName,
                          pm_ticker = Some t, cik = None, source = Some Overrides\<rparr>
         | None \<Rightarrow>
            (let normalizedName = normalizeCompanyName companyName
             in case (if normalizedName = [] then None
                      else truthyLookup (overridesByName client) normalizedName) of
                  Some t \<Rightarrow> Inr \<lparr>isPublic = True, confidence = 1, matchedTitle = Some companyName,
                                 pm_ticker = Some t, cik = None, source = Some Overrides\<rparr>
                | None \<Rightarrow>
                   (case directory of
                      Throws e \<Rightarrow> Inl e
                    | Returns entries \<Rightarrow>
                       (case findCompanyMatch companyName entries of
                          Some m \<Rightarrow>
                            (let cikPadded = zeroPadCIKNumber (cik_str (fst m))
                             in Inr \<lparr>isPublic = True, confidence = toFixed2 (snd m),
                                     matchedTitle = Some (title (fst m)),
                                     pm_ticker = Some (OwnString (te_ticker (fst m))),
                                     cik = Some cikPadded, source = Some SecDirectory\<rparr>)
                        | None \<Rightarrow> Inr notPublic))))"

text \<open>\<open>try { ... } catch (err) { return { isPublic: false, confidence: 0 }; }\<close>\<close>

definition identifyPublicCompany :: "SECEdgarClient \<Rightarrow> TickerEntry list attempt \<Rightarrow> string
    \<Rightarrow> string option \<Rightarrow> jsError + PublicCompanyMatch" where
  "identifyPublicCompany client directory companyName website =
     (case identifyTry client directory companyName website of
        Inl err \<Rightarrow> Inr notPublic
      | Inr m \<Rightarrow> Inr m)"

subsection \<open>Filing classification: \<open>isStockTransactionFiling\<close> and \<open>listAllFilings\<close>\<close>

definition stockForms :: "string list" where
  "stockForms = [''3'', ''4'', ''5'', ''144'', ''3/A'', ''4/A'', ''5/A'', ''144/A'']"

definition stockKeywords :: "string list" where
  "stockKeywords =
     [''stock purchase'', ''stock sale'', ''share purchase'', ''share sale'',
      ''insider trading'', ''beneficial ownership'', ''ownership change'',
      ''acquisition of securities'', ''disposition of securities'',
      ''form 3'', ''form 4'', ''form 5'', ''form 144'']"

definition isStockTransactionFiling :: "string \<Rightarrow> string \<Rightarrow> bool" where
  "isStockTransactionFiling form description =
     (let lowerForm = toLowerCase form;
          lowerDesc = toLowerCase description
      in if form \<in> set stockForms then True
         else list_ex (\<lambda>keyword. includesStr lowerDesc keyword) stockKeywords)"

record EdgarFiling =
  form :: string
  accessionNumber :: "string option"
  primaryDocument :: string
  reportDate :: "string option"
  filingDate :: "string option"
  description :: string
  isExcluded :: bool

text \<open>
  The raw list is \<open>submissions.filings.recent\<close>: parallel arrays, read up to the length
  of \<open>form\<close>. An index past the end of another array reads \<open>undefined\<close>; for
  \<open>primaryDocument\<close>, which is also taken as the description, \<open>toLowerCase\<close> then
  throws a type error.
\<close>

record RecentFilings =
  rf_form :: "string list"
  rf_accessionNumber :: "string list"
  rf_primaryDocument :: "string list"
  rf_reportDate :: "string list"
  rf_filingDate :: "string list"

definition elemAt :: "'a list \<Rightarrow> nat \<Rightarrow> 'a option" where
  "elemAt xs i = (if i < length xs then Some (xs ! i) else None)"

fun filingsLoop :: "RecentFilings \<Rightarrow> int \<Rightarrow> nat \<Rightarrow> string list \<Rightarrow> EdgarFiling list
    \<Rightarrow> jsError + EdgarFiling list" where
  "filingsLoop filings maxCount i [] out = Inr out"
| "filingsLoop filings maxCount i (f # forms) out =
     (if \<not> int (length out) < maxCount then Inr out
      else (case elemAt (rf_primaryDocument filings) i of
              None \<Rightarrow> Inl TypeError
            | Some d \<Rightarrow>
               filingsLoop filings maxCount (Suc i) forms
                 (out @ [\<lparr>form = f,
                          accessionNumber = elemAt (rf_accessionNumber filings) i,
                          primaryDocument = d,
                          reportDate = elemAt (rf_reportDate filings) i,
                          filingDate = elemAt (rf_filingDate filings) i,
                          description = d,
                          isExcluded = isStockTransactionFiling f d\<rparr>])))"

text \<open>
  \<open>submissions\<close> is what \<open>await this.getCompanySubmissions(cik)\<close> gives: a rejection,
  a document without \<open>filings.recent\<close> (\<open>None\<close>), or the raw list.
\<close>

definition listAllFilings :: "RecentFilings option attempt \<Rightarrow> int \<Rightarrow> jsError + EdgarFiling list" where
  "listAllFilings submissions maxCount =
     (case submissions of
        Throws e \<Rightarrow> Inl e
      | Returns None \<Rightarrow> Inr []
      | Returns (Some filings) \<Rightarrow> filingsLoop filings maxCount 0 (rf_form filings) [])"

section \<open>The ticker discovery service (\<open>ticker-discovery-service.ts\<close>)\<close>

record TickerResult =
  ticker :: string
  tr_confidence :: rat
  tr_method :: string
  exchange :: "string option"
  tr_companyName :: "string option"
  tr_source :: "string option"

record ExaSearchResult =
  url :: string
  itemText :: "string option"

datatype livecrawl = Always | Fallback

datatype strategy =
    GoogleFinance | YahooFinance | AlphaVantage | FinancialModelingPrep | ExaMultiQuery
  | InternationalExchanges | EuropeanExchanges | AsianExchanges | WebScraping | ManualMappings

text \<open>
  What the service meets outside itself: the answer of \<open>exaClient.search(query, {type:
  'keyword', numResults, livecrawl})\<close> at each call site, whether the timer of
  \<open>executeWithTimeout\<close> fires before a strategy settles, and the three extractors, which
  match regular expressions against a URL or a text and are left as parameters (every
  statement below holds for all of them).
\<close>

record Discovery =
  search :: "strategy \<Rightarrow> string \<Rightarrow> nat \<Rightarrow> livecrawl \<Rightarrow> ExaSearchResult list attempt"
  timerFirst :: "strategy \<Rightarrow> bool"
  extractTickerFromGoogleFinanceUrl :: "string \<Rightarrow> string option"
  extractTickerFromYahooFinanceUrl :: "string \<Rightarrow> string option"
  extractTickerFromContent :: "string \<Rightarrow> string option"

definition quoted :: "string \<Rightarrow> string" where
  "quoted s = [CHR 0x22] @ s @ [CHR 0x22]"

definition extractExchangeFromUrl :: "string \<Rightarrow> string option" where
  "extractExchangeFromUrl u =
     (if includesStr u ''google.com/finance'' then Some ''Google Finance''
      else if includesStr u ''yahoo.com/finance'' then Some ''Yahoo Finance''
      else if includesStr u ''nyse.com'' then Some ''NYSE''
      else if includesStr u ''nasdaq.com'' then Some ''NASDAQ''
      else if includesStr u ''londonstockexchange.com'' then Some ''LSE''
      else if includesStr u ''xetra.com'' then Some ''XETRA''
      else None)"

text \<open>
  \<^verbatim>\<open>for (const item of result.results) { const ticker = extract(item); if (ticker) return {...}; }\<close>
  The first item with a non-empty ticker.
\<close>

fun firstTicker :: "(ExaSearchResult \<Rightarrow> string option) \<Rightarrow> ExaSearchResult list
    \<Rightarrow> (string \<times> ExaSearchResult) option" where
  "firstTicker extract [] = None"
| "firstTicker extract (item # items) =
     (case extract item of
        None \<Rightarrow> firstTicker extract items
      | Some t \<Rightarrow> if t = [] then firstTicker extract items else Some (t, item))"

definition contentOf :: "ExaSearchResult \<Rightarrow> string" where
  "contentOf item = (case itemText item of None \<Rightarrow> [] | Some t \<Rightarrow> t)"

text \<open>
  The strategies with one query: the \<open>try\<close> block around the search and the loop;
  a rejected search is caught and the strategy returns \<open>null\<close>.
\<close>

definition searchGoogleFinance :: "Discovery \<Rightarrow> string \<Rightarrow> TickerResult option" where
  "searchGoogleFinance env companyName =
     (let query = ''site:google.com/finance/quote '' @ quoted companyName
      in case search env GoogleFinance query 5 Always of
           Throws e \<Rightarrow> None
         | Returns results \<Rightarrow>
            (case firstTicker (\<lambda>item. extractTickerFromGoogleFinanceUrl env (url item)) results of
               None \<Rightarrow> None
             | Some (t, item) \<Rightarrow>
                Some \<lparr>ticker = t, tr_confidence = 95 / 100, tr_method = ''google_finance'',
                      exchange = extractExchangeFromUrl (url item),
                      tr_companyName = Some companyName, tr_source = Some (url item)\<rparr>))"

definition searchYahooFinance :: "Discovery \<Rightarrow> string \<Rightarrow> TickerResult option" where
  "searchYahooFinance env companyName =
     (let query = ''site:finance.yahoo.com/quote '' @ quoted companyName
      in case search env YahooFinance query 5 Always of
           Throws e \<Rightarrow> None
         | Returns results \<Rightarrow>
            (case firstTicker (\<lambda>item. extractTickerFromYahooFinanceUrl env (url item)) results of
               None \<Rightarrow> None
             | Some (t, item) \<Rightarrow>
                Some \<lparr>ticker = t, tr_confidence = 9 / 10, tr_method = ''yahoo_finance'',
                      exchange = extractExchangeFromUrl (url item),
                      tr_companyName = Some companyName, tr_source = Some (url item)\<rparr>))"

definition searchAlphaVantage :: "Discovery \<Rightarrow> string \<Rightarrow> TickerResult option" where
  "searchAlphaVantage env companyName =
     (let query = quoted companyName @ '' ticker symbol stock market''
      in case search env AlphaVantage query 3 Fallback of
           Throws e \<Rightarrow> None
         | Returns results \<Rightarrow>
            (case firstTicker (\<lambda>item. extractTickerFromContent env (contentOf item)) results of
               None \<Rightarrow> None
             | Some (t, item) \<Rightarrow>
                Some \<lparr>ticker = t, tr_confidence = 8 / 10, tr_method = ''alpha_vantage'',
                      exchange = None,
                      tr_companyName = Some companyName, tr_source = Some (url item)\<rparr>))"

definition searchFinancialModelingPrep :: "Discovery \<Rightarrow> string \<Rightarrow> TickerResult option" where
  "searchFinancialModelingPrep env companyName =
     (let query = quoted companyName @ '' financial modeling prep ticker''
      in case search env FinancialModelingPrep query 3 Fallback of
           Throws e \<Rightarrow> None
         | Returns results \<Rightarrow>
            (case firstTicker (\<lambda>item. extractTickerFromContent env (contentOf item)) results of
               None \<Rightarrow> None
             | Some (t, item) \<Rightarrow>
                Some \<lparr>ticker = t, tr_confidence = 85 / 100, tr_method = ''financial_modeling_prep'',
                      exchange = None,
                      tr_companyName = Some companyName, tr_source = Some (url item)\<rparr>))"

text \<open>
  The strategies with several queries loop over them with the \<open>try\<close> block inside the
  loop: a rejected search moves on to the next query. \<open>sweep run extract mk qs\<close> is that
  loop; \<open>run\<close> issues the search of a query and \<open>mk\<close> builds the result.
\<close>

fun sweep :: "('q \<Rightarrow> ExaSearchResult list attempt) \<Rightarrow> (ExaSearchResult \<Rightarrow> string option)
    \<Rightarrow> ('q \<Rightarrow> string \<Rightarrow> ExaSearchResult \<Rightarrow> TickerResult) \<Rightarrow> 'q list \<Rightarrow> TickerResult option" where
  "sweep run extract mk [] = None"
| "sweep run extract mk (q # qs) =
     (case run q of
        Throws e \<Rightarrow> sweep run extract mk qs
      | Returns results \<Rightarrow>
         (case firstTicker extract results of
            None \<Rightarrow> sweep run extract mk qs
          | Some (t, item) \<Rightarrow> Some (mk q t item)))"

definition truthy :: "string option \<Rightarrow> bool" where
  "truthy s = (case s of None \<Rightarrow> False | Some v \<Rightarrow> v \<noteq> [])"

definition searchExaMultiQuery :: "Discovery \<Rightarrow> string \<Rightarrow> string option \<Rightarrow> TickerResult option" where
  "searchExaMultiQuery env companyName website =
     (let queries = filter (\<lambda>q. q \<noteq> [])
            [quoted companyName @ '' ticker symbol stock exchange'',
             quoted companyName @ '' NYSE NASDAQ stock symbol'',
             quoted companyName @ '' investor relations ticker'',
             (if truthy website then quoted companyName @ '' site:'' @ the website @ '' ticker symbol''
              else []),
             quoted companyName @ '' public company stock ticker'']
      in sweep (\<lambda>query. search env ExaMultiQuery query 3 Fallback)
           (\<lambda>item. extractTickerFromContent env (contentOf item))
           (\<lambda>query t item.
              \<lparr>ticker = t, tr_confidence = 75 / 100, tr_method = ''exa_search'', exchange = None,
               tr_companyName = Some companyName, tr_source = Some (url item)\<rparr>)
           queries)"

definition searchInternationalExchanges :: "Discovery \<Rightarrow> string \<Rightarrow> TickerResult option" where
  "searchInternationalExchanges env companyName =
     (let exchanges = [''TSX'', ''TSXV'', ''LSE'', ''ASX'', ''TSE'', ''HKEX'', ''BSE'', ''NSE'']
      in sweep (\<lambda>ex. search env InternationalExchanges
                        (quoted companyName @ '' '' @ ex @ '' stock exchange ticker'') 2 Fallback)
           (\<lambda>item. extractTickerFromContent env (contentOf item))
           (\<lambda>ex t item.
              \<lparr>ticker = t, tr_confidence = 7 / 10, tr_method = ''international_exchange'',
               exchange = Some ex,
               tr_companyName = Some companyName, tr_source = Some (url item)\<rparr>)
           exchanges)"

definition searchEuropeanExchanges :: "Discovery \<Rightarrow> string \<Rightarrow> TickerResult option" where
  "searchEuropeanExchanges env companyName =
     (let exchanges = [''LSE'', ''Euronext'', ''XETRA'', ''SIX'', ''BME'']
      in sweep (\<lambda>ex. search env EuropeanExchanges
                        (quoted companyName @ '' '' @ ex @ '' stock ticker symbol'') 2 Fallback)
           (\<lambda>item. extractTickerFromContent env (contentOf item))
           (\<lambda>ex t item.
              \<lparr>ticker = t, tr_confidence = 7 / 10, tr_method = ''european_exchange'',
               exchange = Some ex,
               tr_companyName = Some companyName, tr_source = Some (url item)\<rparr>)
           exchanges)"

definition searchAsianExchanges :: "Discovery \<Rightarrow> string \<Rightarrow> TickerResult option" where
  "searchAsianExchanges env companyName =
     (let exchanges = [''TSE'', ''HKEX'', ''BSE'', ''NSE'', ''KOSPI'', ''SGX'']
      in sweep (\<lambda>ex. search env AsianExchanges
                        (quoted companyName @ '' '' @ ex @ '' stock ticker symbol'') 2 Fallback)
           (\<lambda>item. extractTickerFromContent env (contentOf item))
           (\<lambda>ex t item.
              \<lparr>ticker = t, tr_confidence = 7 / 10, tr_method = ''asian_exchange'',
               exchange = Some ex,
               tr_companyName = Some companyName, tr_source = Some (url item)\<rparr>)
           exchanges)"

definition searchWebScraping :: "Discovery \<Rightarrow> string \<Rightarrow> string option \<Rightarrow> TickerResult option" where
  "searchWebScraping env companyName website =
     (if \<not> truthy website then None
      else
        (let query = quoted companyName @ '' investor relations ticker symbol site:'' @ the website
         in case search env WebScraping query 3 Always of
              Throws e \<Rightarrow> None
            | Returns results \<Rightarrow>
               (case firstTicker (\<lambda>item. extractTickerFromContent env (contentOf item)) results of
                  None \<Rightarrow> None
                | Some (t, item) \<Rightarrow>
                   Some \<lparr>ticker = t, tr_confidence = 8 / 10, tr_method = ''web_scraping'',
                         exchange = None,
                         tr_companyName = Some companyName, tr_source = Some (url item)\<rparr>)))"

text \<open>The table of \<open>searchManualMappings\<close>, in the order of its object literal.\<close>

definition manualMappings :: "(string \<times> string \<times> rat \<times> string) list" where
  "manualMappings =
     [(''Boeing'', ''BA'', 99 / 100, ''NYSE''),
      (''Lockheed Martin'', ''LMT'', 99 / 100, ''NYSE''),
      (''Northrop Grumman'', ''NOC'', 99 / 100, ''NYSE''),
      (''Raytheon'', ''RTX'', 99 / 100, ''NYSE''),
      (''General Dynamics'', ''GD'', 99 / 100, ''NYSE''),
      (''Textron'', ''TXT'', 99 / 100, ''NYSE''),
      (''Ametek'', ''AME'', 99 / 100, ''NYSE''),
      (''Barnes Group'', ''B'', 99 / 100, ''NYSE''),
      (''Parker Hannifin'', ''PH'', 99 / 100, ''NYSE''),
      (''General Electric'', ''GE'', 99 / 100, ''NYSE''),
      (''Honeywell'', ''HON'', 99 / 100, ''NYSE''),
      (''Moog'', ''MOG.A'', 99 / 100, ''NYSE''),
      (''Hexcel'', ''HXL'', 99 / 100, ''NYSE''),
      (''Triumph Group'', ''TGI'', 99 / 100, ''NYSE''),
      (''AeroVironment'', ''AVAV'', 99 / 100, ''NASDAQ''),
      (''Anduril Industries'', ''ANDU'', 95 / 100, ''NYSE''),
      (''Rolls Royce'', ''RR'', 99 / 100, ''LSE''),
      (''Leonardo DRS'', ''DRS'', 99 / 100, ''NYSE''),
      (''Rheinmetall'', ''RHM'', 99 / 100, ''XETRA''),
      (''Fincantieri'', ''FCT'', 99 / 100, ''MIL''),
      (''Siemens Energy'', ''ENR'', 99 / 100, ''XETRA''),
      (''Albany International'', ''AIN'', 99 / 100, ''NYSE'')]"

fun lookupManual :: "string \<Rightarrow> string \<Rightarrow> (string \<times> string \<times> rat \<times> string) list
    \<Rightarrow> TickerResult option" where
  "lookupManual companyName normalizedName [] = None"
| "lookupManual companyName normalizedName ((key, t, c, ex) # entries) =
     (if includesStr normalizedName (toLowerCase key) \<or> includesStr (toLowerCase key) normalizedName
      then Some \<lparr>ticker = t, tr_confidence = c, tr_method = ''manual_mapping'', exchange = Some ex,
                 tr_companyName = Some companyName, tr_source = None\<rparr>
      else lookupManual companyName normalizedName entries)"

definition searchManualMappings :: "string \<Rightarrow> TickerResult option" where
  "searchManualMappings companyName =
     (let normalizedName = trim (toLowerCase companyName)
      in lookupManual companyName normalizedName manualMappings)"

subsection \<open>\<open>discoverTicker\<close>\<close>

definition strategies :: "bool \<Rightarrow> strategy list" where
  "strategies includeInternational =
     [GoogleFinance, YahooFinance, AlphaVantage, FinancialModelingPrep, ExaMultiQuery]
     @ (if includeInternational
        then [InternationalExchanges, EuropeanExchanges, AsianExchanges] else [])
     @ [WebScraping, ManualMappings]"

fun runStrategy :: "Discovery \<Rightarrow> string \<Rightarrow> string option \<Rightarrow> strategy \<Rightarrow> TickerResult option" where
  "runStrategy env companyName website GoogleFinance = searchGoogleFinance env companyName"
| "runStrategy env companyName website YahooFinance = searchYahooFinance env companyName"
| "runStrategy env companyName website AlphaVantage = searchAlphaVantage env companyName"
| "runStrategy env companyName website FinancialModelingPrep =
     searchFinancialModelingPrep env companyName"
| "runStrategy env companyName website ExaMultiQuery = searchExaMultiQuery env companyName website"
| "runStrategy env companyName website InternationalExchanges =
     searchInternationalExchanges env companyName"
| "runStrategy env companyName website EuropeanExchanges = searchEuropeanExchanges env companyName"
| "runStrategy env companyName website AsianExchanges = searchAsianExchanges env companyName"
| "runStrategy env companyName website WebScraping = searchWebScraping env companyName website"
| "runStrategy env companyName website ManualMappings = searchManualMappings companyName"

text \<open>
  \<^verbatim>\<open>Promise.race([strategy(), new Promise((_, reject) => setTimeout(() => reject(new Error('Strategy timeout')), timeout))])\<close>
  A strategy that returns without awaiting anything (the table lookup, and the
  investor-relations search when there is no website) hands the race a promise that is
  already fulfilled, and a timer callback cannot run before it is taken. Every other
  strategy awaits a search and can lose the race.
\<close>

definition settlesAtOnce :: "strategy \<Rightarrow> string option \<Rightarrow> bool" where
  "settlesAtOnce s website = (s = ManualMappings \<or> (s = WebScraping \<and> \<not> truthy website))"

definition executeWithTimeout :: "Discovery \<Rightarrow> string \<Rightarrow> string option \<Rightarrow> strategy
    \<Rightarrow> TickerResult option attempt" where
  "executeWithTimeout env companyName website s =
     (if timerFirst env s \<and> \<not> settlesAtOnce s website then Throws (Error ''Strategy timeout'')
      else Returns (runStrategy env companyName website s))"

text \<open>
  \<^verbatim>\<open>
  for (const strategy of strategies) {
    try {
      const result = await this.executeWithTimeout(strategy, timeout);
      if (result && result.confidence > 0.7) return result;
    } catch (error) { console.warn(...); continue; }
  }
  return null;
  \<close>
  \<open>discoverFrom\<close> returns the result together with the strategies it has run, in order.
\<close>

definition andThen :: "strategy \<Rightarrow> TickerResult option \<times> strategy list
    \<Rightarrow> TickerResult option \<times> strategy list" where
  "andThen s rest = (fst rest, s # snd rest)"

fun discoverFrom :: "Discovery \<Rightarrow> string \<Rightarrow> string option \<Rightarrow> strategy list
    \<Rightarrow> TickerResult option \<times> strategy list" where
  "discoverFrom env companyName website [] = (None, [])"
| "discoverFrom env companyName website (s # ss) =
     (case executeWithTimeout env companyName website s of
        Throws e \<Rightarrow> andThen s (discoverFrom env companyName website ss)
      | Returns None \<Rightarrow> andThen s (discoverFrom env companyName website ss)
      | Returns (Some result) \<Rightarrow>
          if tr_confidence result > 7 / 10 then (Some result, [s])
          else andThen s (discoverFrom env companyName website ss))"

record TickerDiscoveryOptions =
  includeInternational :: "bool option"

text \<open>The destructuring default \<open>includeInternational = true\<close>.\<close>

definition international :: "TickerDiscoveryOptions \<Rightarrow> bool" where
  "international options = (case includeInternational options of None \<Rightarrow> True | Some b \<Rightarrow> b)"

definition discoverRun :: "Discovery \<Rightarrow> string \<Rightarrow> string option \<Rightarrow> TickerDiscoveryOptions
    \<Rightarrow> TickerResult option \<times> strategy list" where
  "discoverRun env companyName website options =
     discoverFrom env companyName website (strategies (international options))"

definition discoverTicker :: "Discovery \<Rightarrow> string \<Rightarrow> string option \<Rightarrow> TickerDiscoveryOptions
    \<Rightarrow> TickerResult option" where
  "discoverTicker env companyName website options = fst (discoverRun env companyName website options)"

text \<open>
  What a strategy contributes to the loop: its candidate when the race is won and the
  confidence is above \<open>0.7\<close>, nothing otherwise (a lost race, \<open>null\<close>, or a candidate at
  \<open>0.7\<close> or below).
\<close>

definition accepted :: "Discovery \<Rightarrow> string \<Rightarrow> string option \<Rightarrow> strategy \<Rightarrow> TickerResult option" where
  "accepted env companyName website s =
     (case executeWithTimeout env companyName website s of
        Throws e \<Rightarrow> None
      | Returns None \<Rightarrow> None
      | Returns (Some result) \<Rightarrow> if tr_confidence result > 7 / 10 then Some result else None)"

section \<open>The orchestrator (\<open>enhanced-enrichment-service.ts\<close>)\<close>

subsection \<open>Data\<close>

text \<open>
  Of the base profile (\<open>CrustDataCompany\<close>) the orchestrator reads the name and the
  domain. The record it returns is \<open>EnhancedEnrichmentResult\<close>; an optional field that
  is \<open>undefined\<close> is \<open>None\<close>. The flat \<open>enrichmentFields\<close> mapping, \<open>source\<close>, \<open>timestamp\<close>
  and \<open>processingTime\<close> are written but never read by the control flow and are left out.
\<close>

record Company =
  co_name :: string
  co_domain :: string

record CrustDataEnrichmentResult =
  cr_company :: "Company option"
  cr_success :: bool
  cr_error :: "string option"

record SecFiling =
  sf_form :: string
  sf_accessionNumber :: "string option"
  sf_reportDate :: "string option"
  sf_filingDate :: "string option"
  sf_content :: "string option"

record SecData =
  sd_isPublic :: bool
  sd_confidence :: rat
  sd_ticker :: "propertyValue option"
  sd_cik :: "string option"
  sd_filings :: "SecFiling list option"

datatype SECSignals = SECSignals (totalSignals: nat)

datatype FirecrawlData = FirecrawlData (scrapedPages: nat)

record ExaData =
  financialDocuments :: "ExaSearchResult list"
  news :: "ExaSearchResult list"
  technologyStack :: "ExaSearchResult list"

record EnhancedEnrichmentResult =
  company :: "Company option"
  er_ticker :: "string option"
  tickerConfidence :: "rat option"
  tickerMethod :: "string option"
  er_isPublic :: "bool option"
  secData :: "SecData option"
  secSignals :: "SECSignals option"
  exaData :: "ExaData option"
  firecrawlData :: "FirecrawlData option"
  success :: bool
  error :: "string option"

record EnrichmentOptions =
  includeCrustData :: "bool option"
  includeExa :: "bool option"
  includeSEC :: "bool option"
  includeTickerDiscovery :: "bool option"
  includeSECSignals :: "bool option"
  includeFirecrawl :: "bool option"
  includeFinancialDocs :: "bool option"
  includeNews :: "bool option"
  includeTechStack :: "bool option"
  maxConcurrency :: "int option"
  timeout :: "int option"

text \<open>The destructuring default \<open>= true\<close> applies to an option that is \<open>undefined\<close>.\<close>

definition flag :: "bool option \<Rightarrow> bool" where
  "flag b = (case b of None \<Rightarrow> True | Some v \<Rightarrow> v)"

datatype task = BaseProfile | TickerDiscovery | SecLookup | SignalExtraction | WebSearch | Scraping

datatype call =
    CrustDataEnrich string bool
  | DiscoverTicker string string
  | IdentifyPublicCompany string
  | ListAllFilings string
  | ExtractSignals string
  | SearchFinancialDocuments string
  | SearchCompanyNews string
  | SearchTechnologyStack string
  | ExtractCompanyInformation string

text \<open>
  The collaborators of one service instance: what each awaited call gives, and whether
  the timer of a task (\<open>'Task timeout'\<close>) fires before the task settles.
\<close>

record Collaborators =
  crustDataEnrich :: "string \<Rightarrow> bool \<Rightarrow> CrustDataEnrichmentResult attempt"
  tickerDiscover :: "string \<Rightarrow> string \<Rightarrow> TickerResult option attempt"
  secIdentify :: "string \<Rightarrow> string option \<Rightarrow> PublicCompanyMatch attempt"
  secListAllFilings :: "string \<Rightarrow> EdgarFiling list attempt"
  extractSignals :: "string \<Rightarrow> string \<Rightarrow> SECSignals attempt"
  searchFinancialDocuments :: "string \<Rightarrow> string \<Rightarrow> ExaSearchResult list attempt"
  searchCompanyNews :: "string \<Rightarrow> ExaSearchResult list attempt"
  searchTechnologyStack :: "string \<Rightarrow> ExaSearchResult list attempt"
  extractCompanyInformation :: "string \<Rightarrow> string \<Rightarrow> FirecrawlData attempt"
  timerWins :: "string \<Rightarrow> task \<Rightarrow> bool"

record Run =
  result :: EnhancedEnrichmentResult
  calls :: "call list"

datatype 'a promise = Fulfilled 'a | Rejected jsError | Pending

subsection \<open>The task list\<close>

text \<open>
  \<^verbatim>\<open>
  const result = { company: null, enrichmentFields: {}, success: false, ... };
  const tasks = [];
  if (includeCrustData) tasks.push(...);
  if (includeTickerDiscovery && result.company) tasks.push(...);
  if (includeSEC && (result.ticker || result.company?.name)) tasks.push(...);
  if (includeSECSignals && result.secData?.filings && result.ticker) tasks.push(...);
  if (includeExa && result.company) tasks.push(...);
  if (includeFirecrawl && result.company) tasks.push(...);
  \<close>
  Nothing is awaited and \<open>result\<close> is not written between these lines, so every
  condition reads the same snapshot \<open>r\<close> of the result; \<open>buildTasks\<close> is the list as a
  function of the options and of that snapshot.
\<close>

definition initialResult :: EnhancedEnrichmentResult where
  "initialResult =
     \<lparr>company = None, er_ticker = None, tickerConfidence = None, tickerMethod = None,
      er_isPublic = None, secData = None, secSignals = None, exaData = None,
      firecrawlData = None, success = False, error = None\<rparr>"

definition companyNameOf :: "EnhancedEnrichmentResult \<Rightarrow> string option" where
  "companyNameOf r = (case company r of None \<Rightarrow> None | Some c \<Rightarrow> Some (co_name c))"

definition hasFilings :: "EnhancedEnrichmentResult \<Rightarrow> bool" where
  "hasFilings r = (case secData r of None \<Rightarrow> False | Some d \<Rightarrow> sd_filings d \<noteq> None)"

definition buildTasks :: "EnrichmentOptions \<Rightarrow> EnhancedEnrichmentResult \<Rightarrow> task list" where
  "buildTasks options r =
     (if flag (includeCrustData options) then [BaseProfile] else [])
     @ (if flag (includeTickerDiscovery options) \<and> company r \<noteq> None then [TickerDiscovery] else [])
     @ (if flag (includeSEC options) \<and> (truthy (er_ticker r) \<or> truthy (companyNameOf r))
        then [SecLookup] else [])
     @ (if flag (includeSECSignals options) \<and> hasFilings r \<and> truthy (er_ticker r)
        then [SignalExtraction] else [])
     @ (if flag (includeExa options) \<and> company r \<noteq> None then [WebSearch] else [])
     @ (if flag (includeFirecrawl options) \<and> company r \<noteq> None then [Scraping] else [])"

subsection \<open>The task bodies\<close>

text \<open>
  Each body is a \<open>try\<close> block whose \<open>catch\<close> swallows every error, so a body maps a run
  to a run. A body reads \<open>result\<close> when it runs; reading a property of a \<open>company\<close> that
  is still \<open>null\<close> is a type error, caught like any other.
\<close>

definition logCall :: "call \<Rightarrow> Run \<Rightarrow> Run" where
  "logCall c st = st\<lparr>calls := calls st @ [c]\<rparr>"

definition errorMessage :: "jsError \<Rightarrow> string" where
  "errorMessage e = (case e of Error m \<Rightarrow> m | NotAnError \<Rightarrow> ''Unknown error'')"

definition baseProfileTask :: "Collaborators \<Rightarrow> string \<Rightarrow> bool \<Rightarrow> Run \<Rightarrow> Run" where
  "baseProfileTask env identifier isDomain st =
     (let st1 = logCall (CrustDataEnrich identifier isDomain) st;
          r = result st1
      in case crustDataEnrich env identifier isDomain of
           Returns crustDataResult \<Rightarrow>
             (if cr_success crustDataResult \<and> cr_company crustDataResult \<noteq> None
              then st1\<lparr>result := r\<lparr>company := cr_company crustDataResult\<rparr>\<rparr>
              else st1\<lparr>result := r\<lparr>error :=
                     Some (if truthy (cr_error crustDataResult) then the (cr_error crustDataResult)
                           else ''Failed to get company data from CrustData'')\<rparr>\<rparr>)
         | Throws e \<Rightarrow> st1\<lparr>result := r\<lparr>error := Some (''CrustData: '' @ errorMessage e)\<rparr>\<rparr>)"

definition tickerDiscoveryTask :: "Collaborators \<Rightarrow> Run \<Rightarrow> Run" where
  "tickerDiscoveryTask env st =
     (case company (result st) of
        None \<Rightarrow> st
      | Some c \<Rightarrow>
         (let st1 = logCall (DiscoverTicker (co_name c) (co_domain c)) st;
              r = result st1
          in case tickerDiscover env (co_name c) (co_domain c) of
               Returns (Some tickerResult) \<Rightarrow>
                 st1\<lparr>result := r\<lparr>er_ticker := Some (ticker tickerResult),
                                   tickerConfidence := Some (tr_confidence tickerResult),
                                   tickerMethod := Some (tr_method tickerResult),
                                   er_isPublic := Some True\<rparr>\<rparr>
             | Returns None \<Rightarrow> st1
             | Throws e \<Rightarrow> st1))"

definition toSecFiling :: "EdgarFiling \<Rightarrow> SecFiling" where
  "toSecFiling f =
     \<lparr>sf_form = form f, sf_accessionNumber = accessionNumber f, sf_reportDate = reportDate f,
      sf_filingDate = filingDate f, sf_content = None\<rparr>"

definition secLookupTask :: "Collaborators \<Rightarrow> string \<Rightarrow> Run \<Rightarrow> Run" where
  "secLookupTask env identifier st =
     (let r0 = result st;
          queryName = (if truthy (companyNameOf r0) then the (companyNameOf r0) else identifier);
          queryDomain = (case company r0 of None \<Rightarrow> None | Some c \<Rightarrow> Some (co_domain c));
          st1 = logCall (IdentifyPublicCompany queryName) st;
          r = result st1;
          failed = st1\<lparr>result := r\<lparr>secData := Some \<lparr>sd_isPublic = False, sd_confidence = 0,
                     sd_ticker = None, sd_cik = None, sd_filings = None\<rparr>\<rparr>\<rparr>
      in case secIdentify env queryName queryDomain of
           Throws e \<Rightarrow> failed
         | Returns secMatch \<Rightarrow>
            (if isPublic secMatch \<and> truthy (cik secMatch)
             then
               (let st2 = logCall (ListAllFilings (the (cik secMatch))) st1
                in case secListAllFilings env (the (cik secMatch)) of
                     Throws e \<Rightarrow>
                       st2\<lparr>result := r\<lparr>secData := Some \<lparr>sd_isPublic = False, sd_confidence = 0,
                            sd_ticker = None, sd_cik = None, sd_filings = None\<rparr>\<rparr>\<rparr>
                   | Returns filings \<Rightarrow>
                       st2\<lparr>result := r\<lparr>secData := Some \<lparr>sd_isPublic = True,
                            sd_confidence = confidence secMatch, sd_ticker = pm_ticker secMatch,
                            sd_cik = cik secMatch,
                            sd_filings = Some (map toSecFiling filings)\<rparr>\<rparr>\<rparr>)
             else st1\<lparr>result := r\<lparr>secData := Some \<lparr>sd_isPublic = False,
                        sd_confidence = confidence secMatch, sd_ticker = None, sd_cik = None,
                        sd_filings = None\<rparr>\<rparr>\<rparr>))"

definition signalExtractionTask :: "Collaborators \<Rightarrow> string \<Rightarrow> Run \<Rightarrow> Run" where
  "signalExtractionTask env identifier st =
     (case secData (result st) of
        None \<Rightarrow> st
      | Some d \<Rightarrow>
         (case sd_filings d of
            None \<Rightarrow> st
          | Some filings \<Rightarrow>
             (let documents = filter (\<lambda>f. truthy (sf_content f)) filings
              in if documents = [] then st
                 else
                   (let queryName = (if truthy (companyNameOf (result st))
                                     then the (companyNameOf (result st)) else identifier);
                        st1 = logCall (ExtractSignals queryName) st
                    in case extractSignals env queryName
                              (case er_ticker (result st) of None \<Rightarrow> [] | Some t \<Rightarrow> t) of
                         Returns signals \<Rightarrow>
                           st1\<lparr>result := (result st1)\<lparr>secSignals := Some signals\<rparr>\<rparr>
                       | Throws e \<Rightarrow> st1))))"

definition orEmpty :: "ExaSearchResult list attempt \<Rightarrow> ExaSearchResult list" where
  "orEmpty a = (case a of Returns rs \<Rightarrow> rs | Throws e \<Rightarrow> [])"

definition webSearchTask :: "Collaborators \<Rightarrow> EnrichmentOptions \<Rightarrow> Run \<Rightarrow> Run" where
  "webSearchTask env options st =
     (case company (result st) of
        None \<Rightarrow>
          st\<lparr>result := (result st)\<lparr>exaData :=
               Some \<lparr>financialDocuments = [], news = [], technologyStack = []\<rparr>\<rparr>\<rparr>
      | Some c \<Rightarrow>
         (let wantDocs = flag (includeFinancialDocs options) \<and> truthy (er_ticker (result st));
              st1 = (if wantDocs then logCall (SearchFinancialDocuments (co_name c)) st else st);
              docs = (if wantDocs
                      then orEmpty (searchFinancialDocuments env (co_name c) (the (er_ticker (result st))))
                      else []);
              st2 = (if flag (includeNews options)
                     then logCall (SearchCompanyNews (co_name c)) st1 else st1);
              newsFound = (if flag (includeNews options)
                           then orEmpty (searchCompanyNews env (co_name c)) else []);
              st3 = (if flag (includeTechStack options)
                     then logCall (SearchTechnologyStack (co_name c)) st2 else st2);
              tech = (if flag (includeTechStack options)
                      then orEmpty (searchTechnologyStack env (co_name c)) else [])
          in st3\<lparr>result := (result st3)\<lparr>exaData :=
                  Some \<lparr>financialDocuments = docs, news = newsFound, technologyStack = tech\<rparr>\<rparr>\<rparr>))"

definition scrapingTask :: "Collaborators \<Rightarrow> Run \<Rightarrow> Run" where
  "scrapingTask env st =
     (case company (result st) of
        None \<Rightarrow> st
      | Some c \<Rightarrow>
         (let st1 = logCall (ExtractCompanyInformation (co_name c)) st
          in case extractCompanyInformation env (co_name c) (co_domain c) of
               Returns data \<Rightarrow> st1\<lparr>result := (result st1)\<lparr>firecrawlData := Some data\<rparr>\<rparr>
             | Throws e \<Rightarrow> st1))"

fun runTask :: "Collaborators \<Rightarrow> string \<Rightarrow> bool \<Rightarrow> EnrichmentOptions \<Rightarrow> Run \<Rightarrow> task \<Rightarrow> Run" where
  "runTask env identifier isDomain options st BaseProfile = baseProfileTask env identifier isDomain st"
| "runTask env identifier isDomain options st TickerDiscovery = tickerDiscoveryTask env st"
| "runTask env identifier isDomain options st SecLookup = secLookupTask env identifier st"
| "runTask env identifier isDomain options st SignalExtraction = signalExtractionTask env identifier st"
| "runTask env identifier isDomain options st WebSearch = webSearchTask env options st"
| "runTask env identifier isDomain options st Scraping = scrapingTask env st"

subsection \<open>\<open>enrichCompany\<close>\<close>

text \<open>
  \<^verbatim>\<open>
  const semaphore = new Semaphore(maxConcurrency);
  await Promise.all(tasks.map(task => semaphore.acquire().then(async (release) => {
    try {
      await Promise.race([task(), new Promise((_, reject) =>
        setTimeout(() => reject(new Error('Task timeout')), timeout))]);
    } finally { release(); }
  })));
  ...
  result.success = !result.error;
  return result;
  \<close>
  \<open>acquire\<close> hands out a permit only while \<open>permits > 0\<close>, and a permit comes back only
  from a task that has run: with a limit of zero or less no task ever starts and
  \<open>Promise.all\<close> of a non-empty list never settles. With a positive limit every task
  starts, the permit being released in \<open>finally\<close>. A lost race rejects the promise of
  its task and with it \<open>Promise.all\<close> and \<open>enrichCompany\<close>; there is no \<open>catch\<close>.
  Tasks are run one after the other in list order. That is the schedule of the gate
  with one permit, and the only schedule of a list with at most one task.
\<close>

definition finalize :: "EnhancedEnrichmentResult \<Rightarrow> EnhancedEnrichmentResult" where
  "finalize r = r\<lparr>success := \<not> truthy (error r)\<rparr>"

definition permits :: "EnrichmentOptions \<Rightarrow> int" where
  "permits options = (case maxConcurrency options of None \<Rightarrow> 3 | Some n \<Rightarrow> n)"

definition enrichRun :: "Collaborators \<Rightarrow> string \<Rightarrow> bool \<Rightarrow> EnrichmentOptions
    \<Rightarrow> EnhancedEnrichmentResult promise \<times> call list" where
  "enrichRun env identifier isDomain options =
     (let tasks = buildTasks options initialResult;
          st0 = \<lparr>result = initialResult, calls = []\<rparr>
      in if tasks = [] then (Fulfilled (finalize (result st0)), [])
         else if permits options \<le> 0 then (Pending, [])
         else
           (let st = foldl (runTask env identifier isDomain options) st0 tasks
            in if list_ex (timerWins env identifier) tasks
               then (Rejected (Error ''Task timeout''), calls st)
               else (Fulfilled (finalize (result st)), calls st)))"

definition enrichCompany :: "Collaborators \<Rightarrow> string \<Rightarrow> bool \<Rightarrow> EnrichmentOptions
    \<Rightarrow> EnhancedEnrichmentResult promise" where
  "enrichCompany env identifier isDomain options = fst (enrichRun env identifier isDomain options)"

definition invoked :: "Collaborators \<Rightarrow> string \<Rightarrow> bool \<Rightarrow> EnrichmentOptions \<Rightarrow> call list" where
  "invoked env identifier isDomain options = snd (enrichRun env identifier isDomain options)"

subsection \<open>\<open>enrichCompanies\<close>\<close>

text \<open>\<open>xs.slice(start, end)\<close> for integral bounds.\<close>

definition slice :: "'a list \<Rightarrow> int \<Rightarrow> int \<Rightarrow> 'a list" where
  "slice xs start fin =
     (let len = int (length xs);
          k = (if start < 0 then max (len + start) 0 else min start len);
          final = (if fin < 0 then max (len + fin) 0 else min fin len)
      in take (nat (final - k)) (drop (nat k) xs))"

text \<open>
  \<open>Promise.all\<close>: rejected as soon as one promise is rejected, fulfilled with all the
  values once all are fulfilled, pending otherwise.
\<close>

fun firstRejection :: "'a promise list \<Rightarrow> jsError option" where
  "firstRejection [] = None"
| "firstRejection (Rejected e # ps) = Some e"
| "firstRejection (p # ps) = firstRejection ps"

fun fulfilledValues :: "'a promise list \<Rightarrow> 'a list option" where
  "fulfilledValues [] = Some []"
| "fulfilledValues (Fulfilled v # ps) =
     (case fulfilledValues ps of None \<Rightarrow> None | Some vs \<Rightarrow> Some (v # vs))"
| "fulfilledValues (p # ps) = None"

definition promiseAll :: "'a promise list \<Rightarrow> 'a list promise" where
  "promiseAll ps =
     (case firstRejection ps of
        Some e \<Rightarrow> Rejected e
      | None \<Rightarrow> (case fulfilledValues ps of Some vs \<Rightarrow> Fulfilled vs | None \<Rightarrow> Pending))"

datatype event = BatchIssued "string list" | BatchSettled "string list" | Delay nat

text \<open>
  \<^verbatim>\<open>
  const concurrency = options.maxConcurrency || 3;
  const results = [];
  for (let i = 0; i < identifiers.length; i += concurrency) {
    const batch = identifiers.slice(i, i + concurrency);
    const batchResults = await Promise.all(batch.map(async (identifier) =>
      this.enrichCompany(identifier, isDomain, options)));
    results.push(...batchResults);
    if (i + concurrency < identifiers.length)
      await new Promise(resolve => setTimeout(resolve, 2000));
  }
  return results;
  \<close>
  The loop carries \<open>i\<close>, the results and a log of what it has done. With a negative
  \<open>concurrency\<close> the index never reaches the length, so the loop need not terminate:
  it is a partial function, and \<open>None\<close> is a loop that runs forever.
\<close>

partial_function (option) enrichLoop :: "Collaborators \<Rightarrow> string list \<Rightarrow> bool
    \<Rightarrow> EnrichmentOptions \<Rightarrow> int \<Rightarrow> int \<Rightarrow> EnhancedEnrichmentResult list \<Rightarrow> event list
    \<Rightarrow> ((EnhancedEnrichmentResult list \<times> event list) promise) option" where
  "enrichLoop env identifiers isDomain options concurrency i results trace =
     (if i < int (length identifiers) then
        (let batch = slice identifiers i (i + concurrency)
         in case promiseAll (map (\<lambda>identifier. enrichCompany env identifier isDomain options) batch) of
              Rejected e \<Rightarrow> Some (Rejected e)
            | Pending \<Rightarrow> Some Pending
            | Fulfilled batchResults \<Rightarrow>
                enrichLoop env identifiers isDomain options concurrency (i + concurrency)
                  (results @ batchResults)
                  (trace @ [BatchIssued batch, BatchSettled batch]
                       @ (if i + concurrency < int (length identifiers) then [Delay 2000] else [])))
      else Some (Fulfilled (results, trace)))"

definition batchSize :: "EnrichmentOptions \<Rightarrow> int" where
  "batchSize options =
     (case maxConcurrency options of None \<Rightarrow> 3 | Some n \<Rightarrow> if n = 0 then 3 else n)"

definition enrichCompanies :: "Collaborators \<Rightarrow> string list \<Rightarrow> bool \<Rightarrow> EnrichmentOptions
    \<Rightarrow> ((EnhancedEnrichmentResult list \<times> event list) promise) option" where
  "enrichCompanies env identifiers isDomain options =
     enrichLoop env identifiers isDomain options (batchSize options) 0 [] []"

section \<open>The batch plan of the specification\<close>

text \<open>
  The specification describes bulk enrichment as consecutive batches of a fixed size
  with a delay between consecutive batches. \<open>chunks k xs\<close> cuts \<open>xs\<close> into consecutive
  pieces of \<open>k\<close> elements (\<open>k\<close> at least 1), the last one possibly shorter, and
  \<open>batchEvents\<close> is the log of issuing them one after the other: a batch is issued, it
  settles, and a delay of 2000 ms follows unless it was the last.
\<close>

fun chunks :: "nat \<Rightarrow> 'a list \<Rightarrow> 'a list list" where
  "chunks k [] = []"
| "chunks k (x # xs) = (x # take (k - 1) xs) # chunks k (drop (k - 1) xs)"

fun batchEvents :: "string list list \<Rightarrow> event list" where
  "batchEvents [] = []"
| "batchEvents (b # bs) =
     [BatchIssued b, BatchSettled b] @ (if bs = [] then [] else Delay 2000 # batchEvents bs)"

definition isDelay :: "event \<Rightarrow> bool" where
  "isDelay e = (case e of Delay ms \<Rightarrow> True | BatchIssued b \<Rightarrow> False | BatchSettled b \<Rightarrow> False)"

section \<open>Sample environments\<close>

text \<open>
  No network access: every search is rejected and no timer fires early.
\<close>

definition offline :: Discovery where
  "offline =
     \<lparr>search = (\<lambda>s q n l. Throws (Error ''Exa search failed: fetch failed'')),
      timerFirst = (\<lambda>s. False),
      extractTickerFromGoogleFinanceUrl = (\<lambda>u. None),
      extractTickerFromYahooFinanceUrl = (\<lambda>u. None),
      extractTickerFromContent = (\<lambda>t. None)\<rparr>"

text \<open>
  The two quote-page searches are rejected; every keyword search finds one page whose
  text names a ticker.
\<close>

definition keywordHits :: Discovery where
  "keywordHits =
     \<lparr>search = (\<lambda>s q n l. if s = GoogleFinance \<or> s = YahooFinance
                            then Throws (Error ''Exa search failed: 503'')
                            else Returns [\<lparr>url = ''https://example.com/acme'',
                                           itemText = Some ''ticker: ACME''\<rparr>]),
      timerFirst = (\<lambda>s. False),
      extractTickerFromGoogleFinanceUrl = (\<lambda>u. None),
      extractTickerFromYahooFinanceUrl = (\<lambda>u. None),
      extractTickerFromContent = (\<lambda>t. if t = ''ticker: ACME'' then Some ''ACME'' else None)\<rparr>"

text \<open>
  Collaborators that all answer: the profile service knows every identifier except
  \<open>unknown.example\<close>, and ticker discovery, the SEC client, the web search and the
  scraper would each return data if they were called. No task timer fires early.
\<close>

definition services :: Collaborators where
  "services =
     \<lparr>crustDataEnrich = (\<lambda>identifier isDomain.
          if identifier = ''unknown.example''
          then Returns \<lparr>cr_company = None, cr_success = False,
                         cr_error = Some ''Both domain and name search failed''\<rparr>
          else Returns \<lparr>cr_company = Some \<lparr>co_name = identifier, co_domain = identifier\<rparr>,
                         cr_success = True, cr_error = None\<rparr>),
      tickerDiscover = (\<lambda>n d. Returns (Some \<lparr>ticker = ''XYZ'', tr_confidence = 95 / 100,
          tr_method = ''google_finance'', exchange = None, tr_companyName = Some n,
          tr_source = None\<rparr>)),
      secIdentify = (\<lambda>n d. Returns \<lparr>isPublic = True, confidence = 1, matchedTitle = Some n,
          pm_ticker = Some (OwnString ''XYZ''), cik = Some ''0000320193'',
          source = Some SecDirectory\<rparr>),
      secListAllFilings = (\<lambda>c. Returns []),
      extractSignals = (\<lambda>n t. Returns (SECSignals 0)),
      searchFinancialDocuments = (\<lambda>n t. Returns []),
      searchCompanyNews = (\<lambda>n. Returns [\<lparr>url = ''https://example.com/news'', itemText = None\<rparr>]),
      searchTechnologyStack = (\<lambda>n. Returns []),
      extractCompanyInformation = (\<lambda>n d. Returns (FirecrawlData 1)),
      timerWins = (\<lambda>identifier t. False)\<rparr>"

definition defaults :: EnrichmentOptions where
  "defaults =
     \<lparr>includeCrustData = None, includeExa = None, includeSEC = None,
      includeTickerDiscovery = None, includeSECSignals = None, includeFirecrawl = None,
      includeFinancialDocs = None, includeNews = None, includeTechStack = None,
      maxConcurrency = None, timeout = None\<rparr>"

section \<open>Properties\<close>

subsection \<open>Zero-padding of the regulatory identifier\<close>

lemma dropWhile_replicate_append:
  "dropWhile (\<lambda>c. c = x) (replicate k x @ t) = dropWhile (\<lambda>c. c = x) t"
  by (induction k) simp_all

lemma replicate_takeWhile_eq:
  "replicate (length (takeWhile (\<lambda>c. c = x) s)) x = takeWhile (\<lambda>c. c = x) s"
  by (induction s) simp_all

lemma zeroPadCIK_twice: "zeroPadCIK (zeroPadCIK s) = zeroPadCIK s"
  by (simp add: zeroPadCIK_def padStart_def Let_def dropWhile_replicate_append)

lemma zeroPadCIK_fixed:
  assumes "length s = 10"
  shows "zeroPadCIK s = s"
proof -
  let ?z = "\<lambda>c. c = CHR ''0''"
  have "length (takeWhile ?z s) + length (dropWhile ?z s) = 10"
    using assms by (metis length_append takeWhile_dropWhile_id)
  then have "10 - length (dropWhile ?z s) = length (takeWhile ?z s)" by simp
  then have "zeroPadCIK s = replicate (length (takeWhile ?z s)) (CHR ''0'') @ dropWhile ?z s"
    by (simp add: zeroPadCIK_def padStart_def)
  also have "\<dots> = takeWhile ?z s @ dropWhile ?z s"
    by (simp only: replicate_takeWhile_eq)
  finally show ?thesis by simp
qed

lemma numberToString_320193: "numberToString 320193 = ''320193''"
  by (simp add: numberToString.simps[of 320193] numberToString.simps[of 32019]
      numberToString.simps[of 3201] numberToString.simps[of 320] numberToString.simps[of 32]
      numberToString.simps[of 3] digitChars_def)

lemma zeroPadCIK_320193: "zeroPadCIK ''320193'' = ''0000320193''"
  by (simp add: zeroPadCIK_def padStart_def numeral_eq_Suc)

text \<open>
  Claim C8. Zero-padding is idempotent: padding a padded value changes nothing, for
  every string and for every number (rendered by the template literal); a value that
  already has ten characters, in particular ten digits with leading zeros, is returned
  unchanged; and \<open>"320193"\<close>, as a string or as the number, becomes \<open>"0000320193"\<close>.
\<close>

theorem zeroPadCIK_idempotent:
  "zeroPadCIK (zeroPadCIK s) = zeroPadCIK s
   \<and> zeroPadCIK (zeroPadCIKNumber n) = zeroPadCIKNumber n
   \<and> (length s = 10 \<longrightarrow> zeroPadCIK s = s)
   \<and> zeroPadCIK ''320193'' = ''0000320193''
   \<and> zeroPadCIKNumber 320193 = ''0000320193''"
proof (intro conjI impI)
  show "zeroPadCIK (zeroPadCIK s) = zeroPadCIK s" by (rule zeroPadCIK_twice)
  show "zeroPadCIK (zeroPadCIKNumber n) = zeroPadCIKNumber n"
    unfolding zeroPadCIKNumber_def by (rule zeroPadCIK_twice)
  show "zeroPadCIK s = s" if "length s = 10" using that by (rule zeroPadCIK_fixed)
  show "zeroPadCIK ''320193'' = ''0000320193''" by (rule zeroPadCIK_320193)
  show "zeroPadCIKNumber 320193 = ''0000320193''"
    unfolding zeroPadCIKNumber_def numberToString_320193 by (rule zeroPadCIK_320193)
qed

theorem zeroPadCIK_idempotent_witness:
  "length ''0000320193'' = 10 \<and> zeroPadCIK ''0000320193'' = ''0000320193''"
proof -
  have len: "length ''0000320193'' = 10" by simp
  with zeroPadCIK_idempotent[of "''0000320193''" 0] show ?thesis by blast
qed

subsection \<open>Jaccard similarity of normalized names\<close>

lemma finite_tokenSet: "finite (tokenSet s)"
  by (simp add: tokenSet_def)

lemma jaccard_commute: "jaccardSimilarity a b = jaccardSimilarity b a"
proof -
  have "Set.filter (\<lambda>x. x \<in> b) a = Set.filter (\<lambda>x. x \<in> a) b" by auto
  then show ?thesis by (simp add: jaccardSimilarity_def Un_commute)
qed

lemma jaccard_range:
  assumes "finite a" "finite b"
  shows "0 \<le> jaccardSimilarity a b \<and> jaccardSimilarity a b \<le> 1"
proof -
  have sub: "Set.filter (\<lambda>x. x \<in> b) a \<subseteq> a \<union> b" by auto
  have le: "card (Set.filter (\<lambda>x. x \<in> b) a) \<le> card (a \<union> b)"
    using assms sub by (simp add: card_mono)
  show ?thesis
  proof (cases "card (a \<union> b) = 0")
    case True
    with le show ?thesis by (simp add: jaccardSimilarity_def)
  next
    case False
    with le show ?thesis by (simp add: jaccardSimilarity_def)
  qed
qed

lemma jaccard_self:
  assumes "finite a"
  shows "jaccardSimilarity a a = (if a = {} then 0 else 1)"
proof -
  have "Set.filter (\<lambda>x. x \<in> a) a = a" by auto
  then show ?thesis using assms by (simp add: jaccardSimilarity_def)
qed

lemma tokens_generic_name: "tokenSet (normalizeCompanyName ''Aerospace Systems Inc.'') = {}"
  by code_simp

lemma tokens_apple: "tokenSet (normalizeCompanyName ''Apple Inc'') = {''apple''}"
  by code_simp

text \<open>
  Claim C9, as the code has it. The similarity is symmetric; on finite token sets, and
  the token set of a normalized name is finite, it lies between 0 and 1; a name matched
  against itself scores 1 when its normalization leaves at least one token, and 0 when
  it leaves none (the union size is then replaced by 1 and the intersection is empty).
\<close>

theorem jaccard_symmetric_bounded:
  "jaccardSimilarity a b = jaccardSimilarity b a
   \<and> (finite a \<and> finite b \<longrightarrow> 0 \<le> jaccardSimilarity a b \<and> jaccardSimilarity a b \<le> 1)
   \<and> finite (tokenSet (normalizeCompanyName name))
   \<and> jaccardSimilarity (tokenSet (normalizeCompanyName name)) (tokenSet (normalizeCompanyName name))
       = (if tokenSet (normalizeCompanyName name) = {} then 0 else 1)"
  using jaccard_commute[of a b] jaccard_range[of a b]
    finite_tokenSet[of "normalizeCompanyName name"]
    jaccard_self[OF finite_tokenSet[of "normalizeCompanyName name"]]
  by blast

theorem jaccard_symmetric_bounded_witness:
  "finite (tokenSet ''apple'') \<and> finite (tokenSet ''apple computer'')
   \<and> 0 \<le> jaccardSimilarity (tokenSet ''apple'') (tokenSet ''apple computer'')
   \<and> jaccardSimilarity (tokenSet ''apple'') (tokenSet ''apple computer'') \<le> 1
   \<and> tokenSet (normalizeCompanyName ''Apple Inc'') \<noteq> {}
   \<and> jaccardSimilarity (tokenSet (normalizeCompanyName ''Apple Inc''))
         (tokenSet (normalizeCompanyName ''Apple Inc'')) = 1"
proof -
  have fin: "finite (tokenSet ''apple'') \<and> finite (tokenSet ''apple computer'')"
    by (simp add: finite_tokenSet)
  have ne: "tokenSet (normalizeCompanyName ''Apple Inc'') \<noteq> {}"
    by (simp add: tokens_apple)
  from fin ne
    jaccard_symmetric_bounded[of "tokenSet ''apple''" "tokenSet ''apple computer''" "''Apple Inc''"]
  show ?thesis by simp
qed

text \<open>
  The claim as stated fails for a name made of suffixes and generic words only:
  \<open>"Aerospace Systems Inc."\<close> normalizes to the empty string and scores 0 against itself.
\<close>

theorem jaccard_self_counterexample:
  "jaccardSimilarity (tokenSet (normalizeCompanyName ''Aerospace Systems Inc.''))
     (tokenSet (normalizeCompanyName ''Aerospace Systems Inc.'')) \<noteq> 1"
  by (simp add: tokens_generic_name jaccardSimilarity_def)

subsection \<open>Filing classification\<close>

lemma filingsLoop_flags:
  assumes "filingsLoop filings maxCount i forms acc = Inr out"
    and "\<forall>f \<in> set acc. isExcluded f = isStockTransactionFiling (form f) (description f)"
  shows "\<forall>f \<in> set out. isExcluded f = isStockTransactionFiling (form f) (description f)"
  using assms
proof (induction forms arbitrary: i acc)
  case Nil
  then show ?case by simp
next
  case (Cons f forms)
  show ?case
  proof (cases "int (length acc) < maxCount")
    case False
    with Cons.prems show ?thesis by simp
  next
    case True
    show ?thesis
    proof (cases "elemAt (rf_primaryDocument filings) i")
      case None
      with True Cons.prems show ?thesis by simp
    next
      case (Some d)
      with True Cons.prems(1) have
        "filingsLoop filings maxCount (Suc i) forms
           (acc @ [\<lparr>form = f, accessionNumber = elemAt (rf_accessionNumber filings) i,
                    primaryDocument = d, reportDate = elemAt (rf_reportDate filings) i,
                    filingDate = elemAt (rf_filingDate filings) i, description = d,
                    isExcluded = isStockTransactionFiling f d\<rparr>]) = Inr out"
        by simp
      moreover have "\<forall>g \<in> set (acc @ [\<lparr>form = f, accessionNumber = elemAt (rf_accessionNumber filings) i,
                    primaryDocument = d, reportDate = elemAt (rf_reportDate filings) i,
                    filingDate = elemAt (rf_filingDate filings) i, description = d,
                    isExcluded = isStockTransactionFiling f d\<rparr>]).
                 isExcluded g = isStockTransactionFiling (form g) (description g)"
        using Cons.prems(2) by simp
      ultimately show ?thesis by (rule Cons.IH)
    qed
  qed
qed

lemma listAllFilings_flags:
  assumes "listAllFilings submissions maxCount = Inr out"
  shows "\<forall>f \<in> set out. isExcluded f = isStockTransactionFiling (form f) (description f)"
proof (cases submissions)
  case (Throws e)
  with assms show ?thesis by (simp add: listAllFilings_def)
next
  case (Returns r)
  show ?thesis
  proof (cases r)
    case None
    with Returns assms show ?thesis by (simp add: listAllFilings_def)
  next
    case (Some filings)
    with Returns assms have "filingsLoop filings maxCount 0 (rf_form filings) [] = Inr out"
      by (simp add: listAllFilings_def)
    then show ?thesis by (rule filingsLoop_flags) simp
  qed
qed

lemma form4_excluded: "isStockTransactionFiling ''4'' d"
  by (simp add: isStockTransactionFiling_def stockForms_def)

lemma tenK_not_excluded:
  assumes "\<forall>k \<in> set stockKeywords. \<not> includesStr (toLowerCase d) k"
  shows "\<not> isStockTransactionFiling ''10-K'' d"
  using assms by (simp add: isStockTransactionFiling_def stockForms_def list_ex_iff)

lemma sample_filings:
  "listAllFilings
     (Returns (Some \<lparr>rf_form = [''10-K'', ''4''], rf_accessionNumber = [''0001-24-01'', ''0001-24-02''],
        rf_primaryDocument = [''a10k2023.htm'', ''doc4.xml''],
        rf_reportDate = [''2023-09-30''], rf_filingDate = [''2023-11-03'', ''2024-06-04'']\<rparr>)) 10
   = Inr [\<lparr>form = ''10-K'', accessionNumber = Some ''0001-24-01'', primaryDocument = ''a10k2023.htm'',
           reportDate = Some ''2023-09-30'', filingDate = Some ''2023-11-03'',
           description = ''a10k2023.htm'', isExcluded = False\<rparr>,
          \<lparr>form = ''4'', accessionNumber = Some ''0001-24-02'', primaryDocument = ''doc4.xml'',
           reportDate = None, filingDate = Some ''2024-06-04'',
           description = ''doc4.xml'', isExcluded = True\<rparr>]"
  by code_simp

lemma sample_no_keyword:
  "\<forall>k \<in> set stockKeywords. \<not> includesStr (toLowerCase ''a10k2023.htm'') k"
  by code_simp

text \<open>
  Claim C6. Classification is a function of the raw list, and the flag of every filing
  it returns is a function of that filing's own form type and description (so two runs
  on the same list give the same flags). A filing of form type \<open>"4"\<close> is excluded. A
  filing of form type \<open>"10-K"\<close> whose description, compared case-insensitively as the
  classifier does, contains none of the keywords is not excluded.
\<close>

theorem filing_classification:
  "listAllFilings submissions maxCount = Inr out \<longrightarrow>
     (\<forall>f \<in> set out.
        isExcluded f = isStockTransactionFiling (form f) (description f)
        \<and> (form f = ''4'' \<longrightarrow> isExcluded f)
        \<and> (form f = ''10-K''
             \<and> (\<forall>k \<in> set stockKeywords. \<not> includesStr (toLowerCase (description f)) k)
            \<longrightarrow> \<not> isExcluded f))"
proof (intro impI ballI)
  fix f
  assume run: "listAllFilings submissions maxCount = Inr out" and f: "f \<in> set out"
  from listAllFilings_flags[OF run] f
  have flag: "isExcluded f = isStockTransactionFiling (form f) (description f)" by blast
  show "isExcluded f = isStockTransactionFiling (form f) (description f)
        \<and> (form f = ''4'' \<longrightarrow> isExcluded f)
        \<and> (form f = ''10-K''
             \<and> (\<forall>k \<in> set stockKeywords. \<not> includesStr (toLowerCase (description f)) k)
            \<longrightarrow> \<not> isExcluded f)"
    using flag form4_excluded[of "description f"] tenK_not_excluded[of "description f"]
    by auto
qed

theorem filing_classification_witness:
  "listAllFilings
     (Returns (Some \<lparr>rf_form = [''10-K'', ''4''], rf_accessionNumber = [''0001-24-01'', ''0001-24-02''],
        rf_primaryDocument = [''a10k2023.htm'', ''doc4.xml''],
        rf_reportDate = [''2023-09-30''], rf_filingDate = [''2023-11-03'', ''2024-06-04'']\<rparr>)) 10
   = Inr [\<lparr>form = ''10-K'', accessionNumber = Some ''0001-24-01'', primaryDocument = ''a10k2023.htm'',
           reportDate = Some ''2023-09-30'', filingDate = Some ''2023-11-03'',
           description = ''a10k2023.htm'', isExcluded = False\<rparr>,
          \<lparr>form = ''4'', accessionNumber = Some ''0001-24-02'', primaryDocument = ''doc4.xml'',
           reportDate = None, filingDate = Some ''2024-06-04'',
           description = ''doc4.xml'', isExcluded = True\<rparr>]
   \<and> \<not> list_ex (\<lambda>k. includesStr (toLowerCase ''a10k2023.htm'') k) stockKeywords
   \<and> \<not> isStockTransactionFiling ''10-K'' ''a10k2023.htm''
   \<and> isStockTransactionFiling ''4'' ''doc4.xml''"
  using filing_classification[THEN mp, OF sample_filings] sample_filings sample_no_keyword
  by (simp add: list_ex_iff)

subsection \<open>Public-company identification\<close>

lemma findBest_None:
  "findBest t best es = None \<longleftrightarrow>
     best = None \<and> (\<forall>e \<in> set es. jaccardSimilarity t (tokenSet (normalizeCompanyName (title e))) < 8 / 10)"
  by (induction es arbitrary: best) (auto simp: Let_def split: option.splits)

lemma findBest_Some:
  assumes "findBest t best es = Some (e, sc)"
    and "\<forall>b. best = Some b \<longrightarrow> snd b \<ge> 8 / 10"
  shows "sc \<ge> 8 / 10"
  using assms
  by (induction es arbitrary: best) (auto simp: Let_def split: option.splits if_splits)

lemma findBest_score:
  assumes "findBest t best es = Some (e, sc)"
  shows "best = Some (e, sc)
         \<or> (e \<in> set es \<and> sc = jaccardSimilarity t (tokenSet (normalizeCompanyName (title e))))"
  using assms
  by (induction es arbitrary: best) (auto simp: Let_def split: option.splits if_splits)

text \<open>
  Rounding. A score between 0 and 1 differs from its double by at most \<open>2^-53\<close>, and
  \<open>toFixed2\<close> gives the multiple of \<open>1/100\<close> nearest to the double, the larger one when
  the double lies half-way between two of them.
\<close>

lemma pow2_pos: "0 < pow2 e"
  by (simp add: pow2_def)

lemma pow2_small:
  assumes "e \<le> - 52"
  shows "pow2 e \<le> 1 / 2 ^ 52"
proof -
  define k where "k = nat (- e)"
  have "52 \<le> k" using assms by (simp add: k_def)
  then have "(2::rat) ^ 52 \<le> 2 ^ k" by (rule power_increasing) simp
  moreover have "(0::rat) < 2 ^ 52" by simp
  ultimately have "1 / 2 ^ k \<le> 1 / (2::rat) ^ 52" by (simp only: frac_le zero_le_one order_refl)
  moreover have "pow2 e = 1 / 2 ^ k" using assms by (simp add: pow2_def k_def)
  ultimately show ?thesis by (simp only:)
qed

lemma roundTiesToEven_near: "\<bar>of_int (roundTiesToEven y) - y\<bar> \<le> 1 / 2"
proof -
  have "of_int \<lfloor>y\<rfloor> \<le> y" "y < of_int \<lfloor>y\<rfloor> + 1" by linarith+
  then show ?thesis by (auto simp: roundTiesToEven_def Let_def)
qed

lemma floorLog2_unit:
  assumes "0 < x" "x \<le> 1"
  shows "floorLog2 x \<le> 0"
proof -
  obtain p q where pq: "quotient_of x = (p, q)" by (cases "quotient_of x")
  have q: "0 < q" using pq by (rule quotient_of_denom_pos)
  have x: "x = of_int p / of_int q" using pq by (rule quotient_of_div)
  have "p \<le> q" using assms(2) q x by (simp add: pos_divide_le_eq) 
  then have "bitlen p \<le> bitlen q" by (simp add: bitlen_def floorlog_mono)
  then show ?thesis by (simp add: floorLog2_def pq Let_def)
qed

lemma toDouble_near:
  assumes "0 < x" "x \<le> 1"
  shows "\<bar>toDouble x - x\<bar> \<le> 1 / 2 ^ 53"
proof -
  define ulp where "ulp = pow2 (floorLog2 x - 52)"
  have pos: "0 < ulp" by (simp add: ulp_def pow2_pos)
  have small: "ulp \<le> 1 / 2 ^ 52"
    unfolding ulp_def using floorLog2_unit[OF assms] by (intro pow2_small) simp
  have d: "toDouble x = of_int (roundTiesToEven (x / ulp)) * ulp"
    using assms(1) by (simp add: toDouble_def ulp_def Let_def)
  have "toDouble x - x = (of_int (roundTiesToEven (x / ulp)) - x / ulp) * ulp"
    using pos by (simp add: d algebra_simps)
  then have "\<bar>toDouble x - x\<bar> = \<bar>of_int (roundTiesToEven (x / ulp)) - x / ulp\<bar> * ulp"
    using pos by (simp add: abs_mult)
  also have "\<dots> \<le> (1 / 2) * ulp"
    using roundTiesToEven_near[of "x / ulp"] pos by (intro mult_right_mono) simp_all
  also have "\<dots> \<le> (1 / 2) * (1 / 2 ^ 52)"
    using small by (intro mult_left_mono) simp_all
  finally show ?thesis by simp
qed

lemma toFixed2_nearest:
  "\<exists>n. toFixed2 x = of_int n / 100
       \<and> toDouble x - 1 / 200 < of_int n / 100 \<and> of_int n / 100 \<le> toDouble x + 1 / 200"
proof -
  define n where "n = \<lfloor>toDouble x * 100 + 1 / 2\<rfloor>"
  have "of_int n \<le> toDouble x * 100 + 1 / 2" "toDouble x * 100 + 1 / 2 < of_int n + 1"
    unfolding n_def by linarith+
  then have "toDouble x - 1 / 200 < of_int n / 100 \<and> of_int n / 100 \<le> toDouble x + 1 / 200"
    by (simp add: field_simps)
  then show ?thesis by (auto simp: toFixed2_def n_def)
qed

lemma toFixed2_ge:
  assumes "8 / 10 \<le> x" "x \<le> 1"
  shows "8 / 10 \<le> toFixed2 x"
proof -
  have "\<bar>toDouble x - x\<bar> \<le> 1 / 2 ^ 53" using assms by (intro toDouble_near) simp_all
  then have "x - 1 / 2 ^ 53 \<le> toDouble x" by linarith
  then have "(80::rat) \<le> toDouble x * 100 + 1 / 2" using assms(1) by simp
  then have "(80::int) \<le> \<lfloor>toDouble x * 100 + 1 / 2\<rfloor>" by (simp add: le_floor_iff)
  then have "(80::rat) \<le> of_int \<lfloor>toDouble x * 100 + 1 / 2\<rfloor>" by linarith
  then show ?thesis by (simp add: toFixed2_def)
qed

lemma toFixed2_one: "toFixed2 1 = 1"
  by code_simp

text \<open>
  The double decides: \<open>33/40\<close> is \<open>0.825\<close>, its double lies just below, and \<open>toFixed(2)\<close>
  prints \<open>0.82\<close>.
\<close>

lemma toFixed2_of_double: "toFixed2 (33 / 40) = 82 / 100 \<and> toFixed2 (39 / 40) = 97 / 100"
  by code_simp

lemma tokens_apple_title: "tokenSet (normalizeCompanyName ''Apple Inc.'') = {''apple''}"
  by code_simp

lemma domain_apple: "domainOf (Some ''https://www.apple.com/'') = ''apple.com''"
  by code_simp

lemma name_apple: "normalizeCompanyName ''Apple Inc'' = ''apple''"
  by code_simp

lemma find_apple:
  "findCompanyMatch ''Apple Inc'' [\<lparr>cik_str = 320193, te_ticker = ''AAPL'', title = ''Apple Inc.''\<rparr>]
   = Some (\<lparr>cik_str = 320193, te_ticker = ''AAPL'', title = ''Apple Inc.''\<rparr>, 1)"
  using jaccard_self[of "{''apple''}"]
  by (simp add: findCompanyMatch_def tokens_apple tokens_apple_title)

lemma identify_total: "\<exists>m. identifyPublicCompany client directory nm website = Inr m"
  by (simp add: identifyPublicCompany_def split: sum.splits)

lemma identify_miss:
  assumes "domainOf website = [] \<or> truthyLookup (overridesByDomain client) (domainOf website) = None"
    and "normalizeCompanyName nm = []
         \<or> truthyLookup (overridesByName client) (normalizeCompanyName nm) = None"
  shows "identifyTry client directory nm website =
     (case directory of
        Throws e \<Rightarrow> Inl e
      | Returns entries \<Rightarrow>
         (case findCompanyMatch nm entries of
            Some m \<Rightarrow> Inr \<lparr>isPublic = True, confidence = toFixed2 (snd m),
                           matchedTitle = Some (title (fst m)),
                           pm_ticker = Some (OwnString (te_ticker (fst m))),
                           cik = Some (zeroPadCIKNumber (cik_str (fst m))),
                           source = Some SecDirectory\<rparr>
          | None \<Rightarrow> Inr notPublic))"
  using assms by (auto simp: identifyTry_def Let_def split: option.splits attempt.splits)

text \<open>
  Where both lookups \<open>table[key]\<close> are falsy, the function behaves as a directory match
  with a fallback: it returns \<open>{isPublic: false, confidence: 0}\<close> if loading the directory
  fails, if no entry of the directory scores \<open>0.8\<close> or more against the name, and in
  particular if the directory is empty. When the directory match accepts an entry, the
  record is public, its identifier is the zero-padded one, and its confidence is the
  score of that entry as \<open>toFixed(2)\<close> prints it: a multiple of \<open>1/100\<close>, within \<open>1/200\<close> of
  the double of the score, and at least \<open>0.80\<close>.
\<close>

lemma identify_lookups_falsy:
  assumes "domainOf website = [] \<or> truthyLookup (overridesByDomain client) (domainOf website) = None"
    and "normalizeCompanyName nm = []
         \<or> truthyLookup (overridesByName client) (normalizeCompanyName nm) = None"
  shows "(directory = Throws e \<longrightarrow>
            identifyPublicCompany client directory nm website = Inr notPublic)
       \<and> (directory = Returns entries
            \<and> (\<forall>en \<in> set entries.
                  jaccardSimilarity (tokenSet (normalizeCompanyName nm))
                    (tokenSet (normalizeCompanyName (title en))) < 8 / 10)
            \<longrightarrow> identifyPublicCompany client directory nm website = Inr notPublic)
       \<and> (directory = Returns [] \<longrightarrow>
            identifyPublicCompany client directory nm website = Inr notPublic)
       \<and> (directory = Returns entries \<and> findCompanyMatch nm entries = Some (en, sc)
            \<longrightarrow> (\<exists>m n. identifyPublicCompany client directory nm website = Inr m
                      \<and> isPublic m \<and> confidence m = of_int n / 100
                      \<and> toDouble sc - 1 / 200 < confidence m
                      \<and> confidence m \<le> toDouble sc + 1 / 200
                      \<and> \<bar>toDouble sc - sc\<bar> \<le> 1 / 2 ^ 53
                      \<and> 8 / 10 \<le> confidence m
                      \<and> cik m = Some (zeroPadCIKNumber (cik_str en))
                      \<and> en \<in> set entries \<and> 8 / 10 \<le> sc
                      \<and> sc = jaccardSimilarity (tokenSet (normalizeCompanyName nm))
                               (tokenSet (normalizeCompanyName (title en)))))"
proof (intro conjI impI)
  note body = identify_miss[OF assms]
  {
    assume "directory = Throws e"
    then show "identifyPublicCompany client directory nm website = Inr notPublic"
      by (simp add: identifyPublicCompany_def body)
  }
  {
    assume "directory = Returns entries
            \<and> (\<forall>en \<in> set entries.
                  jaccardSimilarity (tokenSet (normalizeCompanyName nm))
                    (tokenSet (normalizeCompanyName (title en))) < 8 / 10)"
    then have d: "directory = Returns entries" and "findCompanyMatch nm entries = None"
      by (simp_all add: findCompanyMatch_def findBest_None)
    then show "identifyPublicCompany client directory nm website = Inr notPublic"
      by (simp add: identifyPublicCompany_def body)
  }
  {
    assume "directory = Returns []"
    then show "identifyPublicCompany client directory nm website = Inr notPublic"
      by (simp add: identifyPublicCompany_def body findCompanyMatch_def)
  }
  {
    assume a: "directory = Returns entries \<and> findCompanyMatch nm entries = Some (en, sc)"
    then have fb: "findBest (tokenSet (normalizeCompanyName nm)) None entries = Some (en, sc)"
      by (simp add: findCompanyMatch_def)
    have sc: "8 / 10 \<le> sc" using findBest_Some[OF fb] by simp
    have mem: "en \<in> set entries
               \<and> sc = jaccardSimilarity (tokenSet (normalizeCompanyName nm))
                        (tokenSet (normalizeCompanyName (title en)))"
      using findBest_score[OF fb] by simp
    have le: "sc \<le> 1"
      using mem jaccard_range[OF finite_tokenSet finite_tokenSet] by simp
    have pos: "0 < sc" using sc by simp
    obtain n where n: "toFixed2 sc = of_int n / 100"
        "toDouble sc - 1 / 200 < of_int n / 100" "of_int n / 100 \<le> toDouble sc + 1 / 200"
      using toFixed2_nearest[of sc] by blast
    have run: "identifyPublicCompany client directory nm website =
            Inr \<lparr>isPublic = True, confidence = toFixed2 sc, matchedTitle = Some (title en),
                 pm_ticker = Some (OwnString (te_ticker en)),
                 cik = Some (zeroPadCIKNumber (cik_str en)), source = Some SecDirectory\<rparr>"
      using a by (simp add: identifyPublicCompany_def body)
    show "\<exists>m n. identifyPublicCompany client directory nm website = Inr m
                      \<and> isPublic m \<and> confidence m = of_int n / 100
                      \<and> toDouble sc - 1 / 200 < confidence m
                      \<and> confidence m \<le> toDouble sc + 1 / 200
                      \<and> \<bar>toDouble sc - sc\<bar> \<le> 1 / 2 ^ 53
                      \<and> 8 / 10 \<le> confidence m
                      \<and> cik m = Some (zeroPadCIKNumber (cik_str en))
                      \<and> en \<in> set entries \<and> 8 / 10 \<le> sc
                      \<and> sc = jaccardSimilarity (tokenSet (normalizeCompanyName nm))
                               (tokenSet (normalizeCompanyName (title en)))"
      unfolding run
      using sc mem n toFixed2_ge[OF sc le] toDouble_near[OF pos le]
      by (intro exI[of _ "\<lparr>isPublic = True, confidence = toFixed2 sc,
                 matchedTitle = Some (title en), pm_ticker = Some (OwnString (te_ticker en)),
                 cik = Some (zeroPadCIKNumber (cik_str en)), source = Some SecDirectory\<rparr>"]
              exI[of _ n]) simp
  }
qed

lemma tokens_stripe: "tokenSet (normalizeCompanyName ''Stripe'') = {''stripe''}"
  by code_simp

lemma name_stripe: "normalizeCompanyName ''Stripe'' = ''stripe''"
  by code_simp

lemma domain_none: "domainOf None = []"
  by code_simp

lemma score_stripe_apple: "jaccardSimilarity {''stripe''} {''apple''} = 0"
proof -
  have "Set.filter (\<lambda>x. x \<in> {''apple''}) {''stripe''} = {}" by auto
  then show ?thesis by (simp add: jaccardSimilarity_def)
qed

lemma empty_tables_miss:
  "truthyLookup Map.empty ''apple.com'' = None" "truthyLookup Map.empty ''apple'' = None"
  "truthyLookup Map.empty ''stripe'' = None"
  by (simp_all add: truthyLookup_def objectPrototypeKeys_def)

text \<open>
  The directory with the one entry of Apple Inc. and no override: the name \<open>Apple Inc\<close>
  is matched with confidence 1 and the padded identifier; a failing download, an empty
  directory and a name that scores 0 give \<open>{isPublic: false, confidence: 0}\<close>.
\<close>

lemma identify_examples:
  "(\<exists>m. identifyPublicCompany \<lparr>overridesByDomain = Map.empty, overridesByName = Map.empty\<rparr>
          (Returns [\<lparr>cik_str = 320193, te_ticker = ''AAPL'', title = ''Apple Inc.''\<rparr>])
          ''Apple Inc'' (Some ''https://www.apple.com/'') = Inr m
        \<and> isPublic m \<and> confidence m = 1 \<and> cik m = Some ''0000320193'')
   \<and> identifyPublicCompany \<lparr>overridesByDomain = Map.empty, overridesByName = Map.empty\<rparr>
          (Throws (Error ''SEC request failed'')) ''Apple Inc'' (Some ''https://www.apple.com/'')
        = Inr notPublic
   \<and> identifyPublicCompany \<lparr>overridesByDomain = Map.empty, overridesByName = Map.empty\<rparr>
          (Returns []) ''Apple Inc'' (Some ''https://www.apple.com/'') = Inr notPublic
   \<and> identifyPublicCompany \<lparr>overridesByDomain = Map.empty, overridesByName = Map.empty\<rparr>
          (Returns [\<lparr>cik_str = 320193, te_ticker = ''AAPL'', title = ''Apple Inc.''\<rparr>])
          ''Stripe'' None = Inr notPublic"
proof -
  let ?client = "\<lparr>overridesByDomain = Map.empty, overridesByName = Map.empty\<rparr>"
  let ?apple = "\<lparr>cik_str = 320193, te_ticker = ''AAPL'', title = ''Apple Inc.''\<rparr>"
  let ?site = "Some ''https://www.apple.com/''"
  have low: "\<forall>en \<in> set [?apple].
               jaccardSimilarity (tokenSet (normalizeCompanyName ''Stripe''))
                 (tokenSet (normalizeCompanyName (title en))) < 8 / 10"
    by (simp add: tokens_stripe tokens_apple_title score_stripe_apple)
  have pad: "zeroPadCIKNumber 320193 = ''0000320193''"
    unfolding zeroPadCIKNumber_def numberToString_320193 by (rule zeroPadCIK_320193)
  have d1: "domainOf ?site = [] \<or> truthyLookup (overridesByDomain ?client) (domainOf ?site) = None"
    by (simp add: domain_apple empty_tables_miss)
  have n1: "normalizeCompanyName ''Apple Inc'' = []
      \<or> truthyLookup (overridesByName ?client) (normalizeCompanyName ''Apple Inc'') = None"
    by (simp add: name_apple empty_tables_miss)
  have d2: "domainOf None = [] \<or> truthyLookup (overridesByDomain ?client) (domainOf None) = None"
    by (simp add: domain_none)
  have n2: "normalizeCompanyName ''Stripe'' = []
      \<or> truthyLookup (overridesByName ?client) (normalizeCompanyName ''Stripe'') = None"
    by (simp add: name_stripe empty_tables_miss)
  have run: "identifyPublicCompany ?client (Returns [?apple]) ''Apple Inc'' ?site =
      Inr \<lparr>isPublic = True, confidence = 1, matchedTitle = Some ''Apple Inc.'',
           pm_ticker = Some (OwnString ''AAPL''), cik = Some ''0000320193'',
           source = Some SecDirectory\<rparr>"
    using find_apple
    by (simp add: identifyPublicCompany_def identify_miss[OF d1 n1] toFixed2_one pad)
  have hit: "\<exists>m. identifyPublicCompany ?client (Returns [?apple]) ''Apple Inc'' ?site = Inr m
        \<and> isPublic m \<and> confidence m = 1 \<and> cik m = Some ''0000320193''"
    unfolding run by simp
  have thrown: "identifyPublicCompany ?client (Throws (Error ''SEC request failed'')) ''Apple Inc'' ?site
        = Inr notPublic"
    using identify_lookups_falsy[OF d1 n1, of "Throws (Error ''SEC request failed'')"
        "Error ''SEC request failed''" "[]" ?apple 1]
    by simp
  have none: "identifyPublicCompany ?client (Returns []) ''Apple Inc'' ?site = Inr notPublic"
    using identify_lookups_falsy[OF d1 n1, of "Returns []" "Error ''x''" "[]" ?apple 1]
    by simp
  have below: "identifyPublicCompany ?client (Returns [?apple]) ''Stripe'' None = Inr notPublic"
    using identify_lookups_falsy[OF d2 n2, of "Returns [?apple]" "Error ''x''" "[?apple]" ?apple 1] low
    by simp
  from hit thrown none below show ?thesis by blast
qed

text \<open>
  Claim C5. The claim has \<open>identifyPublicCompany\<close> return \<open>{isPublic: false, confidence: 0}\<close>
  for every name for which the override tables miss and no directory entry is accepted.
  The code reads a table with \<open>table[key]\<close>, which also finds the members of
  \<open>Object.prototype\<close>. With both tables empty and an empty directory, the name
  \<open>Constructor\<close> is normalized to \<open>constructor\<close>, neither table has an entry for it, and
  no directory entry is accepted; the lookup by name nevertheless gives the inherited
  \<open>constructor\<close>, and the code returns a public company from the overrides, with
  confidence 1 and that inherited value as its ticker.
\<close>

theorem identifyPublicCompany_inherited_key:
  "normalizeCompanyName ''Constructor'' = ''constructor''
   \<and> overridesByDomain \<lparr>overridesByDomain = Map.empty, overridesByName = Map.empty\<rparr> = Map.empty
   \<and> overridesByName \<lparr>overridesByDomain = Map.empty, overridesByName = Map.empty\<rparr> = Map.empty
   \<and> findCompanyMatch ''Constructor'' [] = None
   \<and> identifyPublicCompany \<lparr>overridesByDomain = Map.empty, overridesByName = Map.empty\<rparr>
        (Returns []) ''Constructor'' None
      = Inr \<lparr>isPublic = True, confidence = 1, matchedTitle = Some ''Constructor'',
             pm_ticker = Some (Inherited ''constructor''), cik = None,
             source = Some Overrides\<rparr>
   \<and> identifyPublicCompany \<lparr>overridesByDomain = Map.empty, overridesByName = Map.empty\<rparr>
        (Returns []) ''Constructor'' None
      \<noteq> Inr notPublic"
proof -
  have nm: "normalizeCompanyName ''Constructor'' = ''constructor''"
    by code_simp
  have run: "identifyPublicCompany \<lparr>overridesByDomain = Map.empty, overridesByName = Map.empty\<rparr>
        (Returns []) ''Constructor'' None
      = Inr \<lparr>isPublic = True, confidence = 1, matchedTitle = Some ''Constructor'',
             pm_ticker = Some (Inherited ''constructor''), cik = None,
             source = Some Overrides\<rparr>"
    by code_simp
  have miss: "findCompanyMatch ''Constructor'' [] = None"
    by (simp add: findCompanyMatch_def)
  show ?thesis unfolding run using nm miss by (simp add: notPublic_def)
qed

subsection \<open>Ticker discovery\<close>

lemma sweep_Some:
  assumes "sweep run extract mk qs = Some r"
  shows "\<exists>q t item. q \<in> set qs \<and> r = mk q t item"
  using assms
  by (induction qs) (auto split: attempt.splits option.splits prod.splits)

lemma sweep_all_throw:
  assumes "\<forall>q \<in> set qs. \<exists>e. run q = Throws e"
  shows "sweep run extract mk qs = None"
  using assms by (induction qs) auto

lemma google_candidate:
  assumes "searchGoogleFinance env nm = Some r"
  shows "tr_confidence r = 95 / 100 \<and> tr_method r = ''google_finance''"
  using assms
  by (auto simp: searchGoogleFinance_def Let_def split: attempt.splits option.splits prod.splits)

lemma yahoo_candidate:
  assumes "searchYahooFinance env nm = Some r"
  shows "tr_confidence r = 9 / 10 \<and> tr_method r = ''yahoo_finance''"
  using assms
  by (auto simp: searchYahooFinance_def Let_def split: attempt.splits option.splits prod.splits)

lemma alpha_candidate:
  assumes "searchAlphaVantage env nm = Some r"
  shows "tr_confidence r = 8 / 10 \<and> tr_method r = ''alpha_vantage''"
  using assms
  by (auto simp: searchAlphaVantage_def Let_def split: attempt.splits option.splits prod.splits)

lemma fmp_candidate:
  assumes "searchFinancialModelingPrep env nm = Some r"
  shows "tr_confidence r = 85 / 100 \<and> tr_method r = ''financial_modeling_prep''"
  using assms
  by (auto simp: searchFinancialModelingPrep_def Let_def
      split: attempt.splits option.splits prod.splits)

lemma exa_candidate:
  assumes "searchExaMultiQuery env nm w = Some r"
  shows "tr_confidence r = 75 / 100 \<and> tr_method r = ''exa_search''"
  using sweep_Some[OF assms[unfolded searchExaMultiQuery_def Let_def]] by auto

lemma international_candidate:
  assumes "searchInternationalExchanges env nm = Some r"
  shows "tr_confidence r = 7 / 10 \<and> tr_method r = ''international_exchange''"
  using sweep_Some[OF assms[unfolded searchInternationalExchanges_def Let_def]] by auto

lemma european_candidate:
  assumes "searchEuropeanExchanges env nm = Some r"
  shows "tr_confidence r = 7 / 10 \<and> tr_method r = ''european_exchange''"
  using sweep_Some[OF assms[unfolded searchEuropeanExchanges_def Let_def]] by auto

lemma asian_candidate:
  assumes "searchAsianExchanges env nm = Some r"
  shows "tr_confidence r = 7 / 10 \<and> tr_method r = ''asian_exchange''"
  using sweep_Some[OF assms[unfolded searchAsianExchanges_def Let_def]] by auto

lemma scraping_candidate:
  assumes "searchWebScraping env nm w = Some r"
  shows "tr_confidence r = 8 / 10 \<and> tr_method r = ''web_scraping''"
  using assms
  by (auto simp: searchWebScraping_def Let_def
      split: attempt.splits option.splits prod.splits if_splits)

lemma lookupManual_candidate:
  assumes "lookupManual nm nn entries = Some r"
  shows "tr_method r = ''manual_mapping'' \<and> tr_confidence r \<in> (\<lambda>(k, t, c, ex). c) ` set entries"
  using assms
  by (induction nm nn entries rule: lookupManual.induct) (auto split: if_splits)

lemma manual_candidate:
  assumes "searchManualMappings nm = Some r"
  shows "tr_method r = ''manual_mapping'' \<and> (tr_confidence r = 95 / 100 \<or> tr_confidence r = 99 / 100)"
proof -
  from assms have "lookupManual nm (trim (toLowerCase nm)) manualMappings = Some r"
    by (simp add: searchManualMappings_def)
  from lookupManual_candidate[OF this]
  have m: "tr_method r = ''manual_mapping''"
    and c: "tr_confidence r \<in> (\<lambda>(k, t, c, ex). c) ` set manualMappings" by simp_all
  have "(\<lambda>(k, t, c, ex). c) ` set manualMappings = {99 / 100, 95 / 100 :: rat}"
    by (auto simp: manualMappings_def)
  with m c show ?thesis by auto
qed


lemma strategy_candidate:
  assumes "runStrategy env nm w s = Some r"
  shows "(s = GoogleFinance \<longrightarrow> tr_confidence r = 95 / 100 \<and> tr_method r = ''google_finance'')
    \<and> (s = YahooFinance \<longrightarrow> tr_confidence r = 9 / 10 \<and> tr_method r = ''yahoo_finance'')
    \<and> (s = AlphaVantage \<longrightarrow> tr_confidence r = 8 / 10 \<and> tr_method r = ''alpha_vantage'')
    \<and> (s = FinancialModelingPrep \<longrightarrow>
           tr_confidence r = 85 / 100 \<and> tr_method r = ''financial_modeling_prep'')
    \<and> (s = ExaMultiQuery \<longrightarrow> tr_confidence r = 75 / 100 \<and> tr_method r = ''exa_search'')
    \<and> (s = InternationalExchanges \<longrightarrow>
           tr_confidence r = 7 / 10 \<and> tr_method r = ''international_exchange'')
    \<and> (s = EuropeanExchanges \<longrightarrow> tr_confidence r = 7 / 10 \<and> tr_method r = ''european_exchange'')
    \<and> (s = AsianExchanges \<longrightarrow> tr_confidence r = 7 / 10 \<and> tr_method r = ''asian_exchange'')
    \<and> (s = WebScraping \<longrightarrow> tr_confidence r = 8 / 10 \<and> tr_method r = ''web_scraping'')
    \<and> (s = ManualMappings \<longrightarrow>
           (tr_confidence r = 95 / 100 \<or> tr_confidence r = 99 / 100)
           \<and> tr_method r = ''manual_mapping'')"
  using assms google_candidate[of env nm r] yahoo_candidate[of env nm r]
    alpha_candidate[of env nm r] fmp_candidate[of env nm r] exa_candidate[of env nm w r]
    international_candidate[of env nm r] european_candidate[of env nm r]
    asian_candidate[of env nm r] scraping_candidate[of env nm w r] manual_candidate[of nm r]
  by (cases s) simp_all

lemma accepted_Some:
  "accepted env nm w s = Some r \<longleftrightarrow>
     executeWithTimeout env nm w s = Returns (Some r) \<and> tr_confidence r > 7 / 10"
  by (auto simp: accepted_def split: attempt.splits option.splits if_splits)

lemma executed_candidate:
  assumes "executeWithTimeout env nm w s = Returns (Some r)"
  shows "runStrategy env nm w s = Some r"
  using assms by (simp add: executeWithTimeout_def split: if_splits)

lemma regional_never_accepted:
  assumes "s \<in> {InternationalExchanges, EuropeanExchanges, AsianExchanges}"
  shows "accepted env nm w s = None"
proof (cases "accepted env nm w s")
  case None
  then show ?thesis .
next
  case (Some r)
  then have ex: "executeWithTimeout env nm w s = Returns (Some r)" and c: "tr_confidence r > 7 / 10"
    by (simp_all add: accepted_Some)
  from strategy_candidate[OF executed_candidate[OF ex]] assms
  have "tr_confidence r = 7 / 10" by auto
  with c show ?thesis by simp
qed

lemma discoverFrom_step:
  "discoverFrom env nm w (s # ss) =
     (case accepted env nm w s of
        Some r \<Rightarrow> (Some r, [s])
      | None \<Rightarrow> andThen s (discoverFrom env nm w ss))"
  by (simp add: accepted_def split: attempt.splits option.splits)

lemma discoverFrom_None:
  assumes "discoverFrom env nm w ss = (None, tried)"
  shows "tried = ss \<and> (\<forall>s \<in> set ss. accepted env nm w s = None)"
  using assms
proof (induction ss arbitrary: tried)
  case Nil
  then show ?case by simp
next
  case (Cons s ss)
  show ?case
  proof (cases "accepted env nm w s")
    case (Some r)
    with Cons.prems show ?thesis by (simp add: discoverFrom_step del: discoverFrom.simps)
  next
    case None
    with Cons.prems have "andThen s (discoverFrom env nm w ss) = (None, tried)"
      by (simp add: discoverFrom_step del: discoverFrom.simps)
    then obtain rest where rest: "discoverFrom env nm w ss = (None, rest)" and t: "tried = s # rest"
      by (cases "discoverFrom env nm w ss") (auto simp: andThen_def)
    from Cons.IH[OF rest] None t show ?thesis by simp
  qed
qed

lemma discoverFrom_Some:
  assumes "discoverFrom env nm w ss = (Some r, tried)"
  shows "\<exists>pre s post. ss = pre @ s # post \<and> tried = pre @ [s]
           \<and> accepted env nm w s = Some r \<and> (\<forall>p \<in> set pre. accepted env nm w p = None)"
  using assms
proof (induction ss arbitrary: tried)
  case Nil
  then show ?case by simp
next
  case (Cons s ss)
  show ?case
  proof (cases "accepted env nm w s")
    case (Some r')
    with Cons.prems have "r' = r" and "tried = [s]" by (simp_all add: discoverFrom_step del: discoverFrom.simps)
    with Some have "s # ss = [] @ s # ss \<and> tried = [] @ [s] \<and> accepted env nm w s = Some r
        \<and> (\<forall>p \<in> set []. accepted env nm w p = None)" by simp
    then show ?thesis by blast
  next
    case None
    with Cons.prems have "andThen s (discoverFrom env nm w ss) = (Some r, tried)"
      by (simp add: discoverFrom_step del: discoverFrom.simps)
    then obtain rest where rest: "discoverFrom env nm w ss = (Some r, rest)" and t: "tried = s # rest"
      by (cases "discoverFrom env nm w ss") (auto simp: andThen_def)
    from Cons.IH[OF rest] obtain pre s' post where
      "ss = pre @ s' # post" "rest = pre @ [s']" "accepted env nm w s' = Some r"
      "\<forall>p \<in> set pre. accepted env nm w p = None" by blast
    with None t have "s # ss = (s # pre) @ s' # post \<and> tried = (s # pre) @ [s']
        \<and> accepted env nm w s' = Some r \<and> (\<forall>p \<in> set (s # pre). accepted env nm w p = None)"
      by simp
    then show ?thesis by blast
  qed
qed


lemma discoverFrom_first:
  assumes "\<forall>p \<in> set pre. accepted env nm w p = None" and "accepted env nm w s = Some r"
  shows "discoverFrom env nm w (pre @ s # post) = (Some r, pre @ [s])"
  using assms
  by (induction pre) (simp_all add: discoverFrom_step andThen_def del: discoverFrom.simps)

lemma discoverFrom_none:
  assumes "\<forall>p \<in> set ss. accepted env nm w p = None"
  shows "discoverFrom env nm w ss = (None, ss)"
  using assms
  by (induction ss) (simp_all add: discoverFrom_step andThen_def del: discoverFrom.simps(2))

lemma accepted_candidate:
  assumes "accepted env nm w s = Some r"
  shows "tr_confidence r > 7 / 10
    \<and> tr_method r \<notin> {''international_exchange'', ''european_exchange'', ''asian_exchange''}"
proof -
  from assms have ex: "executeWithTimeout env nm w s = Returns (Some r)"
    and c: "tr_confidence r > 7 / 10" by (simp_all add: accepted_Some)
  from strategy_candidate[OF executed_candidate[OF ex]] c
  have "tr_method r \<notin> {''international_exchange'', ''european_exchange'', ''asian_exchange''}"
    by (cases s) simp_all
  with c show ?thesis by simp
qed


lemma keywordHits_run:
  "discoverRun keywordHits ''Acme'' None \<lparr>includeInternational = None\<rparr>
   = (Some \<lparr>ticker = ''ACME'', tr_confidence = 8 / 10, tr_method = ''alpha_vantage'', exchange = None,
            tr_companyName = Some ''Acme'', tr_source = Some ''https://example.com/acme''\<rparr>,
      [GoogleFinance, YahooFinance, AlphaVantage])"
  by code_simp

lemma keywordHits_fmp:
  "runStrategy keywordHits ''Acme'' None FinancialModelingPrep
   = Some \<lparr>ticker = ''ACME'', tr_confidence = 85 / 100, tr_method = ''financial_modeling_prep'',
           exchange = None, tr_companyName = Some ''Acme'',
           tr_source = Some ''https://example.com/acme''\<rparr>"
  by code_simp

lemma keywordHits_pre:
  "\<forall>p \<in> set [GoogleFinance, YahooFinance]. accepted keywordHits ''Acme'' None p = None"
  by code_simp

lemma keywordHits_alpha:
  "accepted keywordHits ''Acme'' None AlphaVantage
   = Some \<lparr>ticker = ''ACME'', tr_confidence = 8 / 10, tr_method = ''alpha_vantage'', exchange = None,
           tr_companyName = Some ''Acme'', tr_source = Some ''https://example.com/acme''\<rparr>"
  by code_simp

lemma offline_acme:
  "\<forall>s \<in> set (strategies (international \<lparr>includeInternational = None\<rparr>)).
     accepted offline ''Acme'' (Some ''acme.example'') s = None"
  by code_simp

lemma manual_boeing:
  "searchManualMappings ''Boeing''
   = Some \<lparr>ticker = ''BA'', tr_confidence = 99 / 100, tr_method = ''manual_mapping'',
           exchange = Some ''NYSE'', tr_companyName = Some ''Boeing'', tr_source = None\<rparr>"
  by code_simp

lemma strategies_default:
  "strategies (international \<lparr>includeInternational = None\<rparr>)
   = [GoogleFinance, YahooFinance] @ AlphaVantage #
     [FinancialModelingPrep, ExaMultiQuery, InternationalExchanges, EuropeanExchanges,
      AsianExchanges, WebScraping, ManualMappings]"
  by (simp add: strategies_def international_def)

text \<open>
  Claim C4. When the strategies before \<open>s\<close> in the cascade contribute nothing and \<open>s\<close>
  yields a candidate with confidence above \<open>0.70\<close>, \<open>discoverTicker\<close> returns exactly that
  candidate and has run the strategies up to \<open>s\<close> and no later one. When no strategy
  contributes (each one times out, returns \<open>null\<close> or yields a confidence of \<open>0.70\<close> or
  less), it returns \<open>null\<close> after running them all. Whatever it returns has confidence
  above \<open>0.70\<close> and does not come from a regional exchange sweep, whose candidates
  have confidence \<open>0.70\<close> exactly.
\<close>

theorem discoverTicker_first_accepted:
  "(strategies (international options) = pre @ s # post
      \<and> (\<forall>p \<in> set pre. accepted env nm w p = None) \<and> accepted env nm w s = Some r
     \<longrightarrow> discoverRun env nm w options = (Some r, pre @ [s])
         \<and> discoverTicker env nm w options = Some r)
   \<and> ((\<forall>p \<in> set (strategies (international options)). accepted env nm w p = None)
     \<longrightarrow> discoverRun env nm w options = (None, strategies (international options))
         \<and> discoverTicker env nm w options = None)
   \<and> (discoverTicker env nm w options = Some r'
     \<longrightarrow> tr_confidence r' > 7 / 10
         \<and> tr_method r' \<notin> {''international_exchange'', ''european_exchange'', ''asian_exchange''})
   \<and> (accepted env nm w s' = Some c
     \<longleftrightarrow> executeWithTimeout env nm w s' = Returns (Some c) \<and> tr_confidence c > 7 / 10)"
proof (intro conjI impI)
  assume a: "strategies (international options) = pre @ s # post
      \<and> (\<forall>p \<in> set pre. accepted env nm w p = None) \<and> accepted env nm w s = Some r"
  then have run: "discoverRun env nm w options = (Some r, pre @ [s])"
    using discoverFrom_first[of pre env nm w s r post] by (simp add: discoverRun_def)
  then show "discoverRun env nm w options = (Some r, pre @ [s])" .
  from run show "discoverTicker env nm w options = Some r" by (simp add: discoverTicker_def)
next
  assume a: "\<forall>p \<in> set (strategies (international options)). accepted env nm w p = None"
  then have run: "discoverRun env nm w options = (None, strategies (international options))"
    using discoverFrom_none[of "strategies (international options)" env nm w]
    by (simp add: discoverRun_def)
  then show "discoverRun env nm w options = (None, strategies (international options))" .
  from run show "discoverTicker env nm w options = None" by (simp add: discoverTicker_def)
next
  assume a: "discoverTicker env nm w options = Some r'"
  then obtain tried where
    "discoverFrom env nm w (strategies (international options)) = (Some r', tried)"
    by (cases "discoverFrom env nm w (strategies (international options))")
       (simp add: discoverTicker_def discoverRun_def)
  from discoverFrom_Some[OF this] obtain s0 where acc: "accepted env nm w s0 = Some r'" by blast
  from accepted_candidate[OF acc]
  show "tr_confidence r' > 7 / 10"
    and "tr_method r' \<notin> {''international_exchange'', ''european_exchange'', ''asian_exchange''}"
    by simp_all
next
  show "accepted env nm w s' = Some c
     \<longleftrightarrow> executeWithTimeout env nm w s' = Returns (Some c) \<and> tr_confidence c > 7 / 10"
    by (rule accepted_Some)
qed

theorem discoverTicker_first_accepted_witness:
  "discoverRun keywordHits ''Acme'' None \<lparr>includeInternational = None\<rparr>
     = (Some \<lparr>ticker = ''ACME'', tr_confidence = 8 / 10, tr_method = ''alpha_vantage'', exchange = None,
            tr_companyName = Some ''Acme'', tr_source = Some ''https://example.com/acme''\<rparr>,
        [GoogleFinance, YahooFinance, AlphaVantage])
   \<and> list_all (\<lambda>p. accepted keywordHits ''Acme'' None p = None) [GoogleFinance, YahooFinance]
   \<and> list_all (\<lambda>p. accepted offline ''Acme'' (Some ''acme.example'') p = None)
         (strategies (international \<lparr>includeInternational = None\<rparr>))
   \<and> discoverTicker offline ''Acme'' (Some ''acme.example'') \<lparr>includeInternational = None\<rparr> = None"
  using discoverTicker_first_accepted[of "\<lparr>includeInternational = None\<rparr>"
      "[GoogleFinance, YahooFinance]" AlphaVantage
      "[FinancialModelingPrep, ExaMultiQuery, InternationalExchanges, EuropeanExchanges,
        AsianExchanges, WebScraping, ManualMappings]" keywordHits "''Acme''" None
      "\<lparr>ticker = ''ACME'', tr_confidence = 8 / 10, tr_method = ''alpha_vantage'', exchange = None,
        tr_companyName = Some ''Acme'', tr_source = Some ''https://example.com/acme''\<rparr>"]
    discoverTicker_first_accepted[of "\<lparr>includeInternational = None\<rparr>" "[]" GoogleFinance "[]"
      offline "''Acme''" "Some ''acme.example''"]
    strategies_default keywordHits_pre keywordHits_alpha offline_acme
  by (simp add: list_all_iff)


lemma no_network_strategy:
  assumes net: "\<forall>s q n l. \<exists>e. search env s q n l = Throws e" and s: "s \<noteq> ManualMappings"
  shows "runStrategy env nm w s = None"
proof -
  have one: "\<And>s q n l. (case search env s q n l of Throws e \<Rightarrow> None | Returns rs \<Rightarrow> f rs) = None" for f :: "ExaSearchResult list \<Rightarrow> TickerResult option"
  proof -
    fix s q n l
    from net obtain e where "search env s q n l = Throws e" by blast
    then show "(case search env s q n l of Throws e \<Rightarrow> None | Returns rs \<Rightarrow> f rs) = None" by simp
  qed
  have many: "\<And>run ex mk qs. (\<forall>q. \<exists>e. run q = Throws e) \<Longrightarrow> sweep run ex mk qs = None"
    for ex :: "ExaSearchResult \<Rightarrow> string option"
    by (rule sweep_all_throw) simp
  show ?thesis
  proof (cases s)
    case GoogleFinance
    then show ?thesis by (simp add: searchGoogleFinance_def one)
  next
    case YahooFinance
    then show ?thesis by (simp add: searchYahooFinance_def one)
  next
    case AlphaVantage
    then show ?thesis by (simp add: searchAlphaVantage_def one)
  next
    case FinancialModelingPrep
    then show ?thesis by (simp add: searchFinancialModelingPrep_def one)
  next
    case ExaMultiQuery
    then show ?thesis using net by (simp add: searchExaMultiQuery_def sweep_all_throw)
  next
    case InternationalExchanges
    then show ?thesis using net by (simp add: searchInternationalExchanges_def sweep_all_throw)
  next
    case EuropeanExchanges
    then show ?thesis using net by (simp add: searchEuropeanExchanges_def sweep_all_throw)
  next
    case AsianExchanges
    then show ?thesis using net by (simp add: searchAsianExchanges_def sweep_all_throw)
  next
    case WebScraping
    then show ?thesis by (simp add: searchWebScraping_def one)
  next
    case ManualMappings
    with s show ?thesis by simp
  qed
qed

lemma no_network_accepted:
  assumes "\<forall>s q n l. \<exists>e. search env s q n l = Throws e" and "s \<noteq> ManualMappings"
  shows "accepted env nm w s = None"
  using no_network_strategy[OF assms, of nm w]
  by (simp add: accepted_def executeWithTimeout_def)

lemma manual_boeing_accepted:
  "accepted env ''Boeing'' w ManualMappings
   = Some \<lparr>ticker = ''BA'', tr_confidence = 99 / 100, tr_method = ''manual_mapping'',
           exchange = Some ''NYSE'', tr_companyName = Some ''Boeing'', tr_source = None\<rparr>"
  by (simp add: accepted_def executeWithTimeout_def settlesAtOnce_def manual_boeing)

lemma strategies_manual_last:
  "strategies b = butlast (strategies b) @ ManualMappings # []
   \<and> ManualMappings \<notin> set (butlast (strategies b)) \<and> distinct (strategies b)"
  by (cases b) (simp_all add: strategies_def)

lemma split_at_last:
  assumes "distinct xs" and "xs = pre @ x # post" and "xs = front @ [x]"
  shows "post = [] \<and> pre = front"
proof -
  have "post = []"
  proof (rule ccontr)
    assume "post \<noteq> []"
    then have "last xs = last post" using assms(2) by simp
    moreover have "last xs = x" using assms(3) by simp
    moreover have "last post \<in> set post" using \<open>post \<noteq> []\<close> by simp
    moreover have "x \<notin> set post" using assms(1,2) by simp
    ultimately show False by simp
  qed
  with assms(2,3) show ?thesis by simp
qed

lemma manual_method_strategy:
  assumes "accepted env nm w s = Some r" and "tr_method r = ''manual_mapping''"
  shows "s = ManualMappings"
proof -
  from assms(1) have "executeWithTimeout env nm w s = Returns (Some r)"
    by (simp add: accepted_Some)
  from strategy_candidate[OF executed_candidate[OF this]] assms(2)
  show ?thesis by (cases s) simp_all
qed


lemma offline_no_network: "\<forall>s q n l. \<exists>e. search offline s q n l = Throws e"
  by (simp add: offline_def)

text \<open>
  Claim C3, as the code has it. The cascade is the list below: the structured-quote
  search on Google Finance pages (\<open>0.95\<close>), the one on Yahoo Finance pages (\<open>0.90\<close>), the
  generic \<open>ticker symbol stock market\<close> keyword search (\<open>searchAlphaVantage\<close>, \<open>0.80\<close>),
  the \<open>financial modeling prep\<close> keyword search (\<open>0.85\<close>), the multi-query search
  (\<open>0.75\<close>), with international search enabled the three regional sweeps (\<open>0.70\<close>
  each), the investor-relations search on the company site (\<open>0.80\<close>), and the manual
  table last (\<open>0.95\<close> or \<open>0.99\<close>). A result of the manual table is returned only after
  every strategy of the cascade has run and none before it has contributed; and
  without network access \<open>"Boeing"\<close> is resolved to \<open>BA\<close> by the manual table after the
  whole cascade.
\<close>

theorem discoverTicker_cascade_order:
  "strategies True =
     [GoogleFinance, YahooFinance, AlphaVantage, FinancialModelingPrep, ExaMultiQuery,
      InternationalExchanges, EuropeanExchanges, AsianExchanges, WebScraping, ManualMappings]
   \<and> strategies False =
     [GoogleFinance, YahooFinance, AlphaVantage, FinancialModelingPrep, ExaMultiQuery,
      WebScraping, ManualMappings]
   \<and> (runStrategy env nm w s = Some c \<longrightarrow>
         (s = GoogleFinance \<longrightarrow> tr_confidence c = 95 / 100 \<and> tr_method c = ''google_finance'')
       \<and> (s = YahooFinance \<longrightarrow> tr_confidence c = 9 / 10 \<and> tr_method c = ''yahoo_finance'')
       \<and> (s = AlphaVantage \<longrightarrow> tr_confidence c = 8 / 10 \<and> tr_method c = ''alpha_vantage'')
       \<and> (s = FinancialModelingPrep \<longrightarrow>
              tr_confidence c = 85 / 100 \<and> tr_method c = ''financial_modeling_prep'')
       \<and> (s = ExaMultiQuery \<longrightarrow> tr_confidence c = 75 / 100 \<and> tr_method c = ''exa_search'')
       \<and> (s = InternationalExchanges \<longrightarrow>
              tr_confidence c = 7 / 10 \<and> tr_method c = ''international_exchange'')
       \<and> (s = EuropeanExchanges \<longrightarrow> tr_confidence c = 7 / 10 \<and> tr_method c = ''european_exchange'')
       \<and> (s = AsianExchanges \<longrightarrow> tr_confidence c = 7 / 10 \<and> tr_method c = ''asian_exchange'')
       \<and> (s = WebScraping \<longrightarrow> tr_confidence c = 8 / 10 \<and> tr_method c = ''web_scraping'')
       \<and> (s = ManualMappings \<longrightarrow>
              (tr_confidence c = 95 / 100 \<or> tr_confidence c = 99 / 100)
              \<and> tr_method c = ''manual_mapping''))
   \<and> (discoverRun env nm w options = (Some r, tried) \<and> tr_method r = ''manual_mapping'' \<longrightarrow>
         tried = strategies (international options) \<and> last tried = ManualMappings
         \<and> (\<forall>p \<in> set (butlast tried). accepted env nm w p = None))
   \<and> ((\<forall>s q n l. \<exists>e. search env s q n l = Throws e) \<longrightarrow>
         discoverRun env ''Boeing'' w options =
           (Some \<lparr>ticker = ''BA'', tr_confidence = 99 / 100, tr_method = ''manual_mapping'',
                  exchange = Some ''NYSE'', tr_companyName = Some ''Boeing'', tr_source = None\<rparr>,
            strategies (international options)))"
proof (intro conjI)
  show "strategies True =
     [GoogleFinance, YahooFinance, AlphaVantage, FinancialModelingPrep, ExaMultiQuery,
      InternationalExchanges, EuropeanExchanges, AsianExchanges, WebScraping, ManualMappings]"
    by (simp add: strategies_def)
  show "strategies False =
     [GoogleFinance, YahooFinance, AlphaVantage, FinancialModelingPrep, ExaMultiQuery,
      WebScraping, ManualMappings]"
    by (simp add: strategies_def)
  show "runStrategy env nm w s = Some c \<longrightarrow>
         (s = GoogleFinance \<longrightarrow> tr_confidence c = 95 / 100 \<and> tr_method c = ''google_finance'')
       \<and> (s = YahooFinance \<longrightarrow> tr_confidence c = 9 / 10 \<and> tr_method c = ''yahoo_finance'')
       \<and> (s = AlphaVantage \<longrightarrow> tr_confidence c = 8 / 10 \<and> tr_method c = ''alpha_vantage'')
       \<and> (s = FinancialModelingPrep \<longrightarrow>
              tr_confidence c = 85 / 100 \<and> tr_method c = ''financial_modeling_prep'')
       \<and> (s = ExaMultiQuery \<longrightarrow> tr_confidence c = 75 / 100 \<and> tr_method c = ''exa_search'')
       \<and> (s = InternationalExchanges \<longrightarrow>
              tr_confidence c = 7 / 10 \<and> tr_method c = ''international_exchange'')
       \<and> (s = EuropeanExchanges \<longrightarrow> tr_confidence c = 7 / 10 \<and> tr_method c = ''european_exchange'')
       \<and> (s = AsianExchanges \<longrightarrow> tr_confidence c = 7 / 10 \<and> tr_method c = ''asian_exchange'')
       \<and> (s = WebScraping \<longrightarrow> tr_confidence c = 8 / 10 \<and> tr_method c = ''web_scraping'')
       \<and> (s = ManualMappings \<longrightarrow>
              (tr_confidence c = 95 / 100 \<or> tr_confidence c = 99 / 100)
              \<and> tr_method c = ''manual_mapping'')"
    using strategy_candidate[of env nm w s c] by blast
  show "discoverRun env nm w options = (Some r, tried) \<and> tr_method r = ''manual_mapping'' \<longrightarrow>
         tried = strategies (international options) \<and> last tried = ManualMappings
         \<and> (\<forall>p \<in> set (butlast tried). accepted env nm w p = None)"
  proof
    assume a: "discoverRun env nm w options = (Some r, tried) \<and> tr_method r = ''manual_mapping''"
    let ?all = "strategies (international options)"
    from a have "discoverFrom env nm w ?all = (Some r, tried)" by (simp add: discoverRun_def)
    from discoverFrom_Some[OF this] obtain pre s0 post where
      sp: "?all = pre @ s0 # post" and tr: "tried = pre @ [s0]"
      and acc: "accepted env nm w s0 = Some r"
      and before: "\<forall>p \<in> set pre. accepted env nm w p = None" by blast
    from manual_method_strategy[OF acc] a have s0: "s0 = ManualMappings" by simp
    from strategies_manual_last[of "international options"]
    have d: "distinct ?all" and fr: "?all = butlast ?all @ [ManualMappings]" by simp_all
    from split_at_last[OF d sp[unfolded s0] fr] have "post = []" by simp
    with sp tr s0 have "tried = ?all" by simp
    with tr s0 before
    show "tried = ?all \<and> last tried = ManualMappings
         \<and> (\<forall>p \<in> set (butlast tried). accepted env nm w p = None)" by simp
  qed
  show "(\<forall>s q n l. \<exists>e. search env s q n l = Throws e) \<longrightarrow>
         discoverRun env ''Boeing'' w options =
           (Some \<lparr>ticker = ''BA'', tr_confidence = 99 / 100, tr_method = ''manual_mapping'',
                  exchange = Some ''NYSE'', tr_companyName = Some ''Boeing'', tr_source = None\<rparr>,
            strategies (international options))"
  proof
    assume net: "\<forall>s q n l. \<exists>e. search env s q n l = Throws e"
    let ?all = "strategies (international options)"
    from strategies_manual_last[of "international options"]
    have fr: "?all = butlast ?all @ ManualMappings # []"
      and notin: "ManualMappings \<notin> set (butlast ?all)" by simp_all
    have "\<forall>p \<in> set (butlast ?all). accepted env ''Boeing'' w p = None"
      using no_network_accepted[OF net] notin by metis
    from discoverFrom_first[OF this manual_boeing_accepted, of "[]"] fr
    show "discoverRun env ''Boeing'' w options =
           (Some \<lparr>ticker = ''BA'', tr_confidence = 99 / 100, tr_method = ''manual_mapping'',
                  exchange = Some ''NYSE'', tr_companyName = Some ''Boeing'', tr_source = None\<rparr>,
            strategies (international options))"
      by (simp add: discoverRun_def)
  qed
qed

theorem discoverTicker_cascade_order_witness:
  "(\<forall>s q n l. \<exists>e. search offline s q n l = Throws e)
   \<and> runStrategy offline ''Boeing'' (Some ''boeing.com'') ManualMappings
       = Some \<lparr>ticker = ''BA'', tr_confidence = 99 / 100, tr_method = ''manual_mapping'',
               exchange = Some ''NYSE'', tr_companyName = Some ''Boeing'', tr_source = None\<rparr>
   \<and> discoverRun offline ''Boeing'' (Some ''boeing.com'') \<lparr>includeInternational = Some True\<rparr>
       = (Some \<lparr>ticker = ''BA'', tr_confidence = 99 / 100, tr_method = ''manual_mapping'',
                exchange = Some ''NYSE'', tr_companyName = Some ''Boeing'', tr_source = None\<rparr>,
          [GoogleFinance, YahooFinance, AlphaVantage, FinancialModelingPrep, ExaMultiQuery,
           InternationalExchanges, EuropeanExchanges, AsianExchanges, WebScraping, ManualMappings])
   \<and> list_all (\<lambda>p. accepted offline ''Boeing'' (Some ''boeing.com'') p = None)
         [GoogleFinance, YahooFinance, AlphaVantage, FinancialModelingPrep, ExaMultiQuery,
          InternationalExchanges, EuropeanExchanges, AsianExchanges, WebScraping]"
proof -
  let ?ba = "\<lparr>ticker = ''BA'', tr_confidence = 99 / 100, tr_method = ''manual_mapping'',
              exchange = Some ''NYSE'', tr_companyName = Some ''Boeing'', tr_source = None\<rparr>"
  let ?all = "[GoogleFinance, YahooFinance, AlphaVantage, FinancialModelingPrep, ExaMultiQuery,
           InternationalExchanges, EuropeanExchanges, AsianExchanges, WebScraping, ManualMappings]"
  note inst = discoverTicker_cascade_order[of offline "''Boeing''" "Some ''boeing.com''"
      ManualMappings ?ba "\<lparr>includeInternational = Some True\<rparr>" ?ba ?all]
  note order = inst[THEN conjunct1]
  note boeing = inst[THEN conjunct2, THEN conjunct2, THEN conjunct2, THEN conjunct2, THEN mp,
      OF offline_no_network]
  note last = inst[THEN conjunct2, THEN conjunct2, THEN conjunct2, THEN conjunct1]
  have intl: "strategies (international \<lparr>includeInternational = Some True\<rparr>) = ?all"
    using order by (simp add: international_def)
  have manual: "runStrategy offline ''Boeing'' (Some ''boeing.com'') ManualMappings = Some ?ba"
    by (simp add: manual_boeing)
  have run: "discoverRun offline ''Boeing'' (Some ''boeing.com'') \<lparr>includeInternational = Some True\<rparr>
       = (Some ?ba, ?all)"
    using boeing by (simp only: intl)
  have m: "tr_method ?ba = ''manual_mapping''" by simp
  from last[THEN mp, OF conjI[OF run m]]
  have "\<forall>p \<in> set (butlast ?all). accepted offline ''Boeing'' (Some ''boeing.com'') p = None"
    by blast
  then have before: "list_all (\<lambda>p. accepted offline ''Boeing'' (Some ''boeing.com'') p = None)
         [GoogleFinance, YahooFinance, AlphaVantage, FinancialModelingPrep, ExaMultiQuery,
          InternationalExchanges, EuropeanExchanges, AsianExchanges, WebScraping]"
    by simp
  from offline_no_network manual run before show ?thesis by blast
qed

text \<open>
  The order of the claim as stated, with the financial-modeling search (\<open>0.85\<close>) before
  the generic ticker keyword search (\<open>0.80\<close>), is not the order of the code: where both
  would find a ticker, the generic search runs third and its candidate is returned,
  and the financial-modeling search is never run.
\<close>

theorem cascade_order_counterexample:
  "discoverRun keywordHits ''Acme'' None \<lparr>includeInternational = None\<rparr>
     = (Some \<lparr>ticker = ''ACME'', tr_confidence = 8 / 10, tr_method = ''alpha_vantage'', exchange = None,
              tr_companyName = Some ''Acme'', tr_source = Some ''https://example.com/acme''\<rparr>,
        [GoogleFinance, YahooFinance, AlphaVantage])
   \<and> runStrategy keywordHits ''Acme'' None FinancialModelingPrep
     = Some \<lparr>ticker = ''ACME'', tr_confidence = 85 / 100, tr_method = ''financial_modeling_prep'',
             exchange = None, tr_companyName = Some ''Acme'',
             tr_source = Some ''https://example.com/acme''\<rparr>"
  using keywordHits_run keywordHits_fmp by simp

subsection \<open>The orchestrator\<close>

lemma buildTasks_initial:
  "buildTasks options initialResult = (if flag (includeCrustData options) then [BaseProfile] else [])"
  by (simp add: buildTasks_def initialResult_def truthy_def companyNameOf_def hasFilings_def)

lemma baseProfileTask_calls:
  "calls (baseProfileTask env identifier isDomain st) = calls st @ [CrustDataEnrich identifier isDomain]"
  by (simp add: baseProfileTask_def logCall_def Let_def split: attempt.splits)

lemma baseProfileTask_fields:
  "er_ticker (result (baseProfileTask env identifier isDomain st)) = er_ticker (result st)
   \<and> secData (result (baseProfileTask env identifier isDomain st)) = secData (result st)
   \<and> secSignals (result (baseProfileTask env identifier isDomain st)) = secSignals (result st)
   \<and> exaData (result (baseProfileTask env identifier isDomain st)) = exaData (result st)
   \<and> firecrawlData (result (baseProfileTask env identifier isDomain st)) = firecrawlData (result st)"
  by (simp add: baseProfileTask_def logCall_def Let_def split: attempt.splits)

lemma sample_stripe:
  "enrichRun services ''stripe.com'' True defaults
   = (Fulfilled \<lparr>company = Some \<lparr>co_name = ''stripe.com'', co_domain = ''stripe.com''\<rparr>,
         er_ticker = None, tickerConfidence = None, tickerMethod = None, er_isPublic = None,
         secData = None, secSignals = None, exaData = None, firecrawlData = None,
         success = True, error = None\<rparr>,
      [CrustDataEnrich ''stripe.com'' True])"
  by code_simp

lemma sample_unknown:
  "enrichRun services ''unknown.example'' True defaults
   = (Fulfilled \<lparr>company = None,
         er_ticker = None, tickerConfidence = None, tickerMethod = None, er_isPublic = None,
         secData = None, secSignals = None, exaData = None, firecrawlData = None,
         success = False, error = Some ''Both domain and name search failed''\<rparr>,
      [CrustDataEnrich ''unknown.example'' True])"
  by code_simp


lemma enrichRun_cases:
  "enrichRun env identifier isDomain options =
     (if \<not> flag (includeCrustData options) then (Fulfilled (finalize initialResult), [])
      else if permits options \<le> 0 then (Pending, [])
      else (if timerWins env identifier BaseProfile then Rejected (Error ''Task timeout'')
            else Fulfilled (finalize (result (baseProfileTask env identifier isDomain
                                               \<lparr>result = initialResult, calls = []\<rparr>))),
            [CrustDataEnrich identifier isDomain]))"
  by (simp add: enrichRun_def buildTasks_initial baseProfileTask_calls Let_def)

lemma finalize_fields:
  "company (finalize r) = company r \<and> er_ticker (finalize r) = er_ticker r
   \<and> secData (finalize r) = secData r \<and> secSignals (finalize r) = secSignals r
   \<and> exaData (finalize r) = exaData r \<and> firecrawlData (finalize r) = firecrawlData r
   \<and> error (finalize r) = error r \<and> success (finalize r) = (\<not> truthy (error r))"
  by (simp add: finalize_def)

lemma initial_fields:
  "company initialResult = None \<and> er_ticker initialResult = None \<and> secData initialResult = None
   \<and> secSignals initialResult = None \<and> exaData initialResult = None
   \<and> firecrawlData initialResult = None \<and> error initialResult = None"
  by (simp add: initialResult_def)

lemma invoked_only_base:
  "\<forall>c \<in> set (invoked env identifier isDomain options). c = CrustDataEnrich identifier isDomain"
  by (simp add: invoked_def enrichRun_cases)

lemma fulfilled_optional_fields:
  assumes "enrichCompany env identifier isDomain options = Fulfilled r"
  shows "er_ticker r = None \<and> secData r = None \<and> secSignals r = None \<and> exaData r = None
         \<and> firecrawlData r = None"
proof -
  let ?st = "baseProfileTask env identifier isDomain \<lparr>result = initialResult, calls = []\<rparr>"
  from assms have "r = finalize initialResult \<or> r = finalize (result ?st)"
    by (auto simp: enrichCompany_def enrichRun_cases split: if_splits)
  then show ?thesis
    using baseProfileTask_fields[of "env" "identifier" "isDomain" "\<lparr>result = initialResult, calls = []\<rparr>"]
    by (auto simp: finalize_fields initial_fields)
qed

text \<open>
  Claim C1. The task list is built from the fresh result, whose \<open>company\<close> is \<open>null\<close> and
  whose \<open>ticker\<close> is \<open>undefined\<close>, before any task runs. Whatever the options, it holds
  the base-profile task alone (or nothing when the base profile is switched off): the
  tasks for ticker discovery, SEC filings, signal extraction, web search and scraping
  are never added. The only collaborator ever called is the base-profile service, and
  a record that is returned has \<open>ticker\<close>, \<open>secData\<close>, \<open>secSignals\<close>, \<open>exaData\<close> and
  \<open>firecrawlData\<close> undefined.
\<close>

theorem enrichCompany_only_base_profile:
  "company initialResult = None \<and> er_ticker initialResult = None
   \<and> buildTasks options initialResult
       = (if flag (includeCrustData options) then [BaseProfile] else [])
   \<and> TickerDiscovery \<notin> set (buildTasks options initialResult)
   \<and> SecLookup \<notin> set (buildTasks options initialResult)
   \<and> SignalExtraction \<notin> set (buildTasks options initialResult)
   \<and> WebSearch \<notin> set (buildTasks options initialResult)
   \<and> Scraping \<notin> set (buildTasks options initialResult)
   \<and> (\<forall>c \<in> set (invoked env identifier isDomain options). c = CrustDataEnrich identifier isDomain)
   \<and> (enrichCompany env identifier isDomain options = Fulfilled r \<longrightarrow>
         er_ticker r = None \<and> secData r = None \<and> secSignals r = None \<and> exaData r = None
         \<and> firecrawlData r = None)"
  using invoked_only_base[of "env" "identifier" "isDomain" "options"]
    fulfilled_optional_fields[of "env" "identifier" "isDomain" "options" "r"]
  by (simp add: buildTasks_initial initial_fields)

theorem enrichCompany_only_base_profile_witness:
  "enrichCompany services ''stripe.com'' True defaults
     = Fulfilled \<lparr>company = Some \<lparr>co_name = ''stripe.com'', co_domain = ''stripe.com''\<rparr>,
         er_ticker = None, tickerConfidence = None, tickerMethod = None, er_isPublic = None,
         secData = None, secSignals = None, exaData = None, firecrawlData = None,
         success = True, error = None\<rparr>
   \<and> invoked services ''stripe.com'' True defaults = [CrustDataEnrich ''stripe.com'' True]
   \<and> buildTasks defaults initialResult = [BaseProfile]"
proof -
  note inst = enrichCompany_only_base_profile[of defaults services "''stripe.com''" True
      "\<lparr>company = Some \<lparr>co_name = ''stripe.com'', co_domain = ''stripe.com''\<rparr>,
         er_ticker = None, tickerConfidence = None, tickerMethod = None, er_isPublic = None,
         secData = None, secSignals = None, exaData = None, firecrawlData = None,
         success = True, error = None\<rparr>"]
  have f: "flag (includeCrustData defaults)" by (simp add: defaults_def flag_def)
  from inst f have tasks: "buildTasks defaults initialResult = [BaseProfile]" by simp
  from inst have only: "\<forall>c \<in> set (invoked services ''stripe.com'' True defaults).
         c = CrustDataEnrich ''stripe.com'' True" by blast
  from sample_stripe tasks only show ?thesis by (simp add: enrichCompany_def invoked_def)
qed


lemma baseProfileTask_error:
  "error (result (baseProfileTask env identifier isDomain st)) =
     (case crustDataEnrich env identifier isDomain of
        Throws e \<Rightarrow> Some (''CrustData: '' @ errorMessage e)
      | Returns cr \<Rightarrow>
          if cr_success cr \<and> cr_company cr \<noteq> None then error (result st)
          else Some (if truthy (cr_error cr) then the (cr_error cr)
                     else ''Failed to get company data from CrustData''))"
  by (cases "crustDataEnrich env identifier isDomain")
     (auto simp: baseProfileTask_def logCall_def Let_def)

lemma baseProfileTask_company:
  "company (result (baseProfileTask env identifier isDomain st)) =
     (case crustDataEnrich env identifier isDomain of
        Throws e \<Rightarrow> company (result st)
      | Returns cr \<Rightarrow>
          if cr_success cr \<and> cr_company cr \<noteq> None then cr_company cr else company (result st))"
  by (cases "crustDataEnrich env identifier isDomain")
     (auto simp: baseProfileTask_def logCall_def Let_def)

lemma truthy_the: "truthy x \<Longrightarrow> the x \<noteq> []"
  by (cases x) (simp_all add: truthy_def)

lemma base_failure_recorded:
  assumes "(\<exists>e. crustDataEnrich env identifier isDomain = Throws e)
     \<or> (\<exists>cr. crustDataEnrich env identifier isDomain = Returns cr
              \<and> \<not> (cr_success cr \<and> cr_company cr \<noteq> None))"
  shows "truthy (error (result (baseProfileTask env identifier isDomain st)))
     \<and> company (result (baseProfileTask env identifier isDomain st)) = company (result st)"
proof (cases "crustDataEnrich env identifier isDomain")
  case (Throws e)
  then show ?thesis
    by (simp add: baseProfileTask_error baseProfileTask_company truthy_def)
next
  case (Returns cr)
  with assms have bad: "\<not> (cr_success cr \<and> cr_company cr \<noteq> None)" by simp
  have "truthy (Some (if truthy (cr_error cr) then the (cr_error cr)
                     else ''Failed to get company data from CrustData''))"
    using truthy_the[of "cr_error cr"] by (simp add: truthy_def)
  with Returns bad show ?thesis
    by (auto simp: baseProfileTask_error baseProfileTask_company)
qed

lemma base_success_recorded:
  assumes "crustDataEnrich env identifier isDomain = Returns cr"
    and "cr_success cr \<and> cr_company cr \<noteq> None"
  shows "error (result (baseProfileTask env identifier isDomain st)) = error (result st)
     \<and> company (result (baseProfileTask env identifier isDomain st)) = cr_company cr"
  using assms by (simp add: baseProfileTask_error baseProfileTask_company)

lemma other_tasks_keep_error:
  assumes "t \<noteq> BaseProfile"
  shows "error (result (runTask env identifier isDomain options st t)) = error (result st)"
proof (cases t)
  case BaseProfile
  with assms show ?thesis by simp
next
  case TickerDiscovery
  then show ?thesis
    by (simp add: tickerDiscoveryTask_def logCall_def Let_def split: option.splits attempt.splits)
next
  case SecLookup
  then show ?thesis
    by (simp add: secLookupTask_def logCall_def Let_def split: option.splits attempt.splits)
next
  case SignalExtraction
  then show ?thesis
    by (simp add: signalExtractionTask_def logCall_def Let_def split: option.splits attempt.splits)
next
  case WebSearch
  then show ?thesis
    by (simp add: webSearchTask_def logCall_def Let_def split: option.splits attempt.splits)
next
  case Scraping
  then show ?thesis
    by (simp add: scrapingTask_def logCall_def Let_def split: option.splits attempt.splits)
qed

lemma buildTasks_snapshot:
  "(TickerDiscovery \<in> set (buildTasks options snap) \<longrightarrow> company snap \<noteq> None)
   \<and> (SecLookup \<in> set (buildTasks options snap) \<longrightarrow>
         truthy (er_ticker snap) \<or> truthy (companyNameOf snap))
   \<and> (SignalExtraction \<in> set (buildTasks options snap) \<longrightarrow>
         hasFilings snap \<and> truthy (er_ticker snap))
   \<and> (WebSearch \<in> set (buildTasks options snap) \<longrightarrow> company snap \<noteq> None)
   \<and> (Scraping \<in> set (buildTasks options snap) \<longrightarrow> company snap \<noteq> None)"
  by (simp add: buildTasks_def)

lemma failed_fetch_record:
  assumes inc: "flag (includeCrustData options)"
    and bad: "(\<exists>e. crustDataEnrich env identifier isDomain = Throws e)
       \<or> (\<exists>cr. crustDataEnrich env identifier isDomain = Returns cr
                \<and> \<not> (cr_success cr \<and> cr_company cr \<noteq> None))"
  shows "(enrichCompany env identifier isDomain options = Fulfilled r \<longrightarrow>
            \<not> success r \<and> company r = None \<and> truthy (error r))
       \<and> (0 < permits options \<and> \<not> timerWins env identifier BaseProfile \<longrightarrow>
            (\<exists>r'. enrichCompany env identifier isDomain options = Fulfilled r' \<and> \<not> success r'))"
proof -
  let ?st = "baseProfileTask env identifier isDomain \<lparr>result = initialResult, calls = []\<rparr>"
  from base_failure_recorded[OF bad, of "\<lparr>result = initialResult, calls = []\<rparr>"]
  have e: "truthy (error (result ?st))" and c: "company (result ?st) = None"
    by (simp_all add: initial_fields)
  have fin: "\<not> success (finalize (result ?st)) \<and> company (finalize (result ?st)) = None
       \<and> truthy (error (finalize (result ?st)))"
    using e c by (simp add: finalize_fields)
  show ?thesis
    using inc fin by (auto simp: enrichCompany_def enrichRun_cases split: if_splits)
qed

text \<open>
  Claim C2. A task with a data dependency is in the task list only if its prerequisite
  is populated in the snapshot of the result that the list is built from; nothing
  waits or retries. When the base-profile fetch fails (the service rejects, or answers
  without success or without a company), a record that is returned has \<open>success\<close> false,
  such a record is returned whenever the gate has a permit and the task timer does not
  fire first, and neither ticker discovery nor the SEC lookup and its filing retrieval
  is ever called for the request.
\<close>

theorem enrichCompany_snapshot_dependencies:
  "(TickerDiscovery \<in> set (buildTasks options snap) \<longrightarrow> company snap \<noteq> None)
   \<and> (SecLookup \<in> set (buildTasks options snap) \<longrightarrow>
         truthy (er_ticker snap) \<or> truthy (companyNameOf snap))
   \<and> (SignalExtraction \<in> set (buildTasks options snap) \<longrightarrow>
         hasFilings snap \<and> truthy (er_ticker snap))
   \<and> (WebSearch \<in> set (buildTasks options snap) \<longrightarrow> company snap \<noteq> None)
   \<and> (Scraping \<in> set (buildTasks options snap) \<longrightarrow> company snap \<noteq> None)
   \<and> (flag (includeCrustData options)
        \<and> ((\<exists>e. crustDataEnrich env identifier isDomain = Throws e)
            \<or> (\<exists>cr. crustDataEnrich env identifier isDomain = Returns cr
                     \<and> \<not> (cr_success cr \<and> cr_company cr \<noteq> None)))
       \<longrightarrow>
         (enrichCompany env identifier isDomain options = Fulfilled r \<longrightarrow>
            \<not> success r \<and> company r = None \<and> truthy (error r))
       \<and> (0 < permits options \<and> \<not> timerWins env identifier BaseProfile \<longrightarrow>
            (\<exists>r'. enrichCompany env identifier isDomain options = Fulfilled r' \<and> \<not> success r'))
       \<and> DiscoverTicker n d \<notin> set (invoked env identifier isDomain options)
       \<and> ListAllFilings k \<notin> set (invoked env identifier isDomain options)
       \<and> IdentifyPublicCompany n \<notin> set (invoked env identifier isDomain options)
       \<and> TickerDiscovery \<notin> set (buildTasks options initialResult)
       \<and> SecLookup \<notin> set (buildTasks options initialResult))"
proof -
  have calls: "DiscoverTicker n d \<notin> set (invoked env identifier isDomain options)
       \<and> ListAllFilings k \<notin> set (invoked env identifier isDomain options)
       \<and> IdentifyPublicCompany n \<notin> set (invoked env identifier isDomain options)"
    using invoked_only_base[of "env" "identifier" "isDomain" "options"] by auto
  have tasks: "TickerDiscovery \<notin> set (buildTasks options initialResult)
       \<and> SecLookup \<notin> set (buildTasks options initialResult)"
    by (simp add: buildTasks_initial)
  show ?thesis
    using buildTasks_snapshot[of options snap]
      failed_fetch_record[of options "env" "identifier" "isDomain" r] calls tasks
    by blast
qed


lemma sample_snapshot:
  "buildTasks defaults (initialResult\<lparr>company := Some \<lparr>co_name = ''Stripe'', co_domain = ''stripe.com''\<rparr>\<rparr>)
     = [BaseProfile, TickerDiscovery, SecLookup, WebSearch, Scraping]"
  by code_simp

lemma sample_snapshot_filings:
  "buildTasks defaults
     (initialResult\<lparr>er_ticker := Some ''XYZ'',
        secData := Some \<lparr>sd_isPublic = True, sd_confidence = 1, sd_ticker = Some (OwnString ''XYZ''),
                         sd_cik = Some ''0000320193'', sd_filings = Some []\<rparr>\<rparr>)
     = [BaseProfile, SecLookup, SignalExtraction]"
  by code_simp

theorem enrichCompany_snapshot_dependencies_witness:
  "TickerDiscovery \<in> set (buildTasks defaults
       (initialResult\<lparr>company := Some \<lparr>co_name = ''Stripe'', co_domain = ''stripe.com''\<rparr>\<rparr>))
   \<and> company (initialResult\<lparr>company := Some \<lparr>co_name = ''Stripe'', co_domain = ''stripe.com''\<rparr>\<rparr>)
       \<noteq> None
   \<and> SignalExtraction \<in> set (buildTasks defaults
       (initialResult\<lparr>er_ticker := Some ''XYZ'',
          secData := Some \<lparr>sd_isPublic = True, sd_confidence = 1, sd_ticker = Some (OwnString ''XYZ''),
                           sd_cik = Some ''0000320193'', sd_filings = Some []\<rparr>\<rparr>))
   \<and> hasFilings (initialResult\<lparr>er_ticker := Some ''XYZ'',
          secData := Some \<lparr>sd_isPublic = True, sd_confidence = 1, sd_ticker = Some (OwnString ''XYZ''),
                           sd_cik = Some ''0000320193'', sd_filings = Some []\<rparr>\<rparr>)
   \<and> flag (includeCrustData defaults)
   \<and> crustDataEnrich services ''unknown.example'' True
       = Returns \<lparr>cr_company = None, cr_success = False,
                   cr_error = Some ''Both domain and name search failed''\<rparr>
   \<and> 0 < permits defaults \<and> \<not> timerWins services ''unknown.example'' BaseProfile
   \<and> enrichCompany services ''unknown.example'' True defaults
       = Fulfilled \<lparr>company = None,
           er_ticker = None, tickerConfidence = None, tickerMethod = None, er_isPublic = None,
           secData = None, secSignals = None, exaData = None, firecrawlData = None,
           success = False, error = Some ''Both domain and name search failed''\<rparr>
   \<and> invoked services ''unknown.example'' True defaults
       = [CrustDataEnrich ''unknown.example'' True]"
proof -
  let ?snap1 = "initialResult\<lparr>company := Some \<lparr>co_name = ''Stripe'', co_domain = ''stripe.com''\<rparr>\<rparr>"
  let ?snap2 = "initialResult\<lparr>er_ticker := Some ''XYZ'',
          secData := Some \<lparr>sd_isPublic = True, sd_confidence = 1, sd_ticker = Some (OwnString ''XYZ''),
                           sd_cik = Some ''0000320193'', sd_filings = Some []\<rparr>\<rparr>"
  let ?cr = "\<lparr>cr_company = None, cr_success = False,
                   cr_error = Some ''Both domain and name search failed''\<rparr>"
  let ?r = "\<lparr>company = None,
           er_ticker = None, tickerConfidence = None, tickerMethod = None, er_isPublic = None,
           secData = None, secSignals = None, exaData = None, firecrawlData = None,
           success = False, error = Some ''Both domain and name search failed''\<rparr>"
  have t1: "TickerDiscovery \<in> set (buildTasks defaults ?snap1)" by (simp add: sample_snapshot)
  have t2: "SignalExtraction \<in> set (buildTasks defaults ?snap2)"
    by (simp add: sample_snapshot_filings)
  note i1 = enrichCompany_snapshot_dependencies[of defaults ?snap1 services "''unknown.example''"
      True ?r "''n''" "''d''" "''k''"]
  note i2 = enrichCompany_snapshot_dependencies[of defaults ?snap2 services "''unknown.example''"
      True ?r "''n''" "''d''" "''k''"]
  from i1[THEN conjunct1] t1 have c1: "company ?snap1 \<noteq> None" by blast
  from i2[THEN conjunct2, THEN conjunct2, THEN conjunct1] t2 have c2: "hasFilings ?snap2" by blast
  have f: "flag (includeCrustData defaults)" by (simp add: defaults_def flag_def)
  have cr: "crustDataEnrich services ''unknown.example'' True = Returns ?cr"
    by (simp add: services_def)
  have p: "0 < permits defaults" by (simp add: defaults_def permits_def)
  have tw: "\<not> timerWins services ''unknown.example'' BaseProfile" by (simp add: services_def)
  from sample_unknown have run: "enrichCompany services ''unknown.example'' True defaults = Fulfilled ?r"
    and inv: "invoked services ''unknown.example'' True defaults
       = [CrustDataEnrich ''unknown.example'' True]"
    by (simp_all add: enrichCompany_def invoked_def)
  from t1 c1 t2 c2 f cr p tw run inv show ?thesis by blast
qed

text \<open>
  Claim C7. In a returned record \<open>success\<close> is true exactly when no error was recorded,
  and an error is recorded exactly when the base-profile fetch was attempted and
  failed. The optional fields of the other sub-tasks are absent, and no other task
  body ever writes \<open>error\<close>, whatever its collaborators do.
\<close>

theorem enrichCompany_success_iff:
  "(enrichCompany env identifier isDomain options = Fulfilled r \<longrightarrow>
      (success r \<longleftrightarrow> error r = None)
      \<and> (success r \<longleftrightarrow>
           \<not> (flag (includeCrustData options)
               \<and> ((\<exists>e. crustDataEnrich env identifier isDomain = Throws e)
                   \<or> (\<exists>cr. crustDataEnrich env identifier isDomain = Returns cr
                            \<and> \<not> (cr_success cr \<and> cr_company cr \<noteq> None)))))
      \<and> er_ticker r = None \<and> secData r = None \<and> secSignals r = None \<and> exaData r = None
      \<and> firecrawlData r = None)
   \<and> (t \<noteq> BaseProfile \<longrightarrow>
        error (result (runTask env identifier isDomain options st t)) = error (result st))"
proof (intro conjI impI)
  assume run: "enrichCompany env identifier isDomain options = Fulfilled r"
  let ?st = "baseProfileTask env identifier isDomain \<lparr>result = initialResult, calls = []\<rparr>"
  let ?bad = "(\<exists>e. crustDataEnrich env identifier isDomain = Throws e)
                   \<or> (\<exists>cr. crustDataEnrich env identifier isDomain = Returns cr
                            \<and> \<not> (cr_success cr \<and> cr_company cr \<noteq> None))"
  from fulfilled_optional_fields[OF run]
  show "er_ticker r = None" "secData r = None" "secSignals r = None" "exaData r = None"
    "firecrawlData r = None" by simp_all
  have both: "(success r \<longleftrightarrow> error r = None)
      \<and> (success r \<longleftrightarrow> \<not> (flag (includeCrustData options) \<and> ?bad))"
  proof (cases "flag (includeCrustData options)")
    case False
    with run have "r = finalize initialResult"
      by (simp add: enrichCompany_def enrichRun_cases)
    with False show ?thesis by (simp add: finalize_fields initial_fields truthy_def)
  next
    case True
    with run have r: "r = finalize (result ?st)"
      by (auto simp: enrichCompany_def enrichRun_cases split: if_splits)
    show ?thesis
    proof (cases ?bad)
      case bad: True
      from base_failure_recorded[OF bad, of "\<lparr>result = initialResult, calls = []\<rparr>"]
      have "truthy (error (result ?st))" by simp
      then have "\<not> success r \<and> error r \<noteq> None"
        using r by (auto simp: finalize_fields truthy_def split: option.splits)
      with True bad show ?thesis by simp
    next
      case ok: False
      then obtain cr where cr: "crustDataEnrich env identifier isDomain = Returns cr"
        and good: "cr_success cr \<and> cr_company cr \<noteq> None"
        by (cases "crustDataEnrich env identifier isDomain") auto
      from base_success_recorded[OF cr good, of "\<lparr>result = initialResult, calls = []\<rparr>"]
      have "error (result ?st) = None" by (simp add: initial_fields)
      then have "success r \<and> error r = None"
        using r by (simp add: finalize_fields truthy_def)
      with ok show ?thesis by simp
    qed
  qed
  from both show "success r \<longleftrightarrow> error r = None" by blast
  from both show "success r \<longleftrightarrow> \<not> (flag (includeCrustData options) \<and> ?bad)" by blast
next
  assume "t \<noteq> BaseProfile"
  then show "error (result (runTask env identifier isDomain options st t)) = error (result st)"
    by (rule other_tasks_keep_error)
qed


theorem enrichCompany_success_iff_witness:
  "enrichCompany services ''stripe.com'' True defaults
     = Fulfilled \<lparr>company = Some \<lparr>co_name = ''stripe.com'', co_domain = ''stripe.com''\<rparr>,
         er_ticker = None, tickerConfidence = None, tickerMethod = None, er_isPublic = None,
         secData = None, secSignals = None, exaData = None, firecrawlData = None,
         success = True, error = None\<rparr>
   \<and> enrichCompany services ''unknown.example'' True defaults
     = Fulfilled \<lparr>company = None,
         er_ticker = None, tickerConfidence = None, tickerMethod = None, er_isPublic = None,
         secData = None, secSignals = None, exaData = None, firecrawlData = None,
         success = False, error = Some ''Both domain and name search failed''\<rparr>
   \<and> (\<exists>cr. crustDataEnrich services ''unknown.example'' True = Returns cr
            \<and> \<not> (cr_success cr \<and> cr_company cr \<noteq> None))
   \<and> TickerDiscovery \<noteq> BaseProfile
   \<and> error (result (runTask (services\<lparr>tickerDiscover := (\<lambda>n d. Throws (Error ''Strategy timeout''))\<rparr>)
         ''stripe.com'' True defaults
         \<lparr>result = initialResult\<lparr>company := Some \<lparr>co_name = ''Stripe'', co_domain = ''stripe.com''\<rparr>\<rparr>,
          calls = []\<rparr> TickerDiscovery)) = None"
proof -
  let ?rs = "\<lparr>company = Some \<lparr>co_name = ''stripe.com'', co_domain = ''stripe.com''\<rparr>,
         er_ticker = None, tickerConfidence = None, tickerMethod = None, er_isPublic = None,
         secData = None, secSignals = None, exaData = None, firecrawlData = None,
         success = True, error = None\<rparr>"
  let ?ru = "\<lparr>company = None,
         er_ticker = None, tickerConfidence = None, tickerMethod = None, er_isPublic = None,
         secData = None, secSignals = None, exaData = None, firecrawlData = None,
         success = False, error = Some ''Both domain and name search failed''\<rparr>"
  let ?env = "services\<lparr>tickerDiscover := (\<lambda>n d. Throws (Error ''Strategy timeout''))\<rparr>"
  let ?st = "\<lparr>result = initialResult\<lparr>company := Some \<lparr>co_name = ''Stripe'', co_domain = ''stripe.com''\<rparr>\<rparr>,
          calls = []\<rparr>"
  have s1: "enrichCompany services ''stripe.com'' True defaults = Fulfilled ?rs"
    using sample_stripe by (simp add: enrichCompany_def)
  have s2: "enrichCompany services ''unknown.example'' True defaults = Fulfilled ?ru"
    using sample_unknown by (simp add: enrichCompany_def)
  have bad: "\<exists>cr. crustDataEnrich services ''unknown.example'' True = Returns cr
            \<and> \<not> (cr_success cr \<and> cr_company cr \<noteq> None)"
    by (simp add: services_def)
  have ne: "TickerDiscovery \<noteq> BaseProfile" by simp
  note inst = enrichCompany_success_iff[of services "''stripe.com''" True defaults ?rs
      TickerDiscovery ?st]
  note inst2 = enrichCompany_success_iff[of ?env "''stripe.com''" True defaults ?rs
      TickerDiscovery ?st]
  from inst2[THEN conjunct2, THEN mp, OF ne]
  have keep: "error (result (runTask ?env ''stripe.com'' True defaults ?st TickerDiscovery)) = None"
    by (simp add: initialResult_def)
  from inst[THEN conjunct1, THEN mp, OF s1] have "success ?rs \<longleftrightarrow> error ?rs = None" by blast
  with s1 s2 bad ne keep show ?thesis by blast
qed

subsection \<open>Bulk enrichment\<close>

lemma slice_batch:
  assumes "0 < c" and "i < length xs"
  shows "slice xs (int i) (int i + c) = take (nat c) (drop i xs)"
proof -
  have "nat (min (int i + c) (int (length xs)) - int i) = min (nat c) (length xs - i)"
    using assms by (simp add: min_def) linarith
  then show ?thesis using assms by (simp add: slice_def Let_def min_def)
qed

lemma firstRejection_fulfilled:
  assumes "\<forall>x \<in> set xs. g x = Fulfilled (f x)"
  shows "firstRejection (map g xs) = None"
  using assms by (induction xs) simp_all

lemma fulfilledValues_fulfilled:
  assumes "\<forall>x \<in> set xs. g x = Fulfilled (f x)"
  shows "fulfilledValues (map g xs) = Some (map f xs)"
  using assms by (induction xs) simp_all

lemma promiseAll_fulfilled:
  assumes "\<forall>x \<in> set xs. g x = Fulfilled (f x)"
  shows "promiseAll (map g xs) = Fulfilled (map f xs)"
  using firstRejection_fulfilled[OF assms] fulfilledValues_fulfilled[OF assms]
  by (simp add: promiseAll_def)

lemma chunks_step:
  assumes "0 < k" and "xs \<noteq> []"
  shows "chunks k xs = take k xs # chunks k (drop k xs)"
proof -
  from assms(2) obtain y ys where xs: "xs = y # ys" by (cases xs) auto
  from assms(1) obtain m where k: "k = Suc m" by (cases k) auto
  show ?thesis by (simp add: xs k)
qed

lemma chunks_Nil_iff: "chunks k xs = [] \<longleftrightarrow> xs = []"
  by (cases xs) simp_all


lemma batchEvents_step:
  "batchEvents (b # chunks k ys)
   = [BatchIssued b, BatchSettled b] @ (if ys \<noteq> [] then [Delay 2000] else [])
     @ batchEvents (chunks k ys)"
  by (cases ys) simp_all

lemma enrichLoop_fulfils:
  assumes c: "0 < c" and all: "\<forall>x \<in> set ids. enrichCompany env x d opts = Fulfilled (f x)"
  shows "enrichLoop env ids d opts c (int i) results trace
         = Some (Fulfilled (results @ map f (drop i ids),
                            trace @ batchEvents (chunks (nat c) (drop i ids))))"
proof (induction "length ids - i" arbitrary: i results trace rule: less_induct)
  case less
  show ?case
  proof (cases "i < length ids")
    case False
    then show ?thesis by (subst enrichLoop.simps) simp
  next
    case True
    define rest where "rest = drop i ids"
    define batch where "batch = take (nat c) rest"
    define after where "after = drop (i + nat c) ids"
    define events where "events = [BatchIssued batch, BatchSettled batch]
        @ (if int i + c < int (length ids) then [Delay 2000] else [])"
    have ne: "rest \<noteq> []" using True by (simp add: rest_def)
    have sl: "slice ids (int i) (int i + c) = batch"
      unfolding batch_def rest_def by (rule slice_batch[OF c True])
    have "\<forall>x \<in> set batch. enrichCompany env x d opts = Fulfilled (f x)"
      unfolding batch_def rest_def using all by (meson in_set_dropD in_set_takeD)
    then have pa: "promiseAll (map (\<lambda>x. enrichCompany env x d opts) batch)
                   = Fulfilled (map f batch)"
      by (rule promiseAll_fulfilled)
    have idx: "int (i + nat c) = int i + c" using c by simp
    have dec: "length ids - (i + nat c) < length ids - i" using c True by simp
    have after: "drop (nat c) rest = after"
      unfolding rest_def after_def by (simp add: add.commute)
    have split: "batch @ after = rest"
      unfolding batch_def after[symmetric] by (rule append_take_drop_id)
    have res: "map f batch @ map f after = map f rest"
      unfolding split[symmetric] by simp
    have cond: "(int i + c < int (length ids)) = (after \<noteq> [])"
      unfolding after_def using c by simp linarith
    have ch: "chunks (nat c) rest = batch # chunks (nat c) after"
      unfolding batch_def after[symmetric] by (rule chunks_step) (use c ne in simp_all)
    have ev: "batchEvents (chunks (nat c) rest) = events @ batchEvents (chunks (nat c) after)"
      unfolding ch events_def cond by (simp only: batchEvents_step append_assoc)
    have "enrichLoop env ids d opts c (int i) results trace
          = enrichLoop env ids d opts c (int i + c) (results @ map f batch) (trace @ events)"
      using True unfolding events_def by (subst enrichLoop.simps) (simp add: sl pa Let_def)
    also have "\<dots> = Some (Fulfilled ((results @ map f batch) @ map f after,
                 (trace @ events) @ batchEvents (chunks (nat c) after)))"
      using less.hyps[OF dec, of "results @ map f batch" "trace @ events"]
      unfolding idx after_def .
    also have "\<dots> = Some (Fulfilled (results @ map f rest,
                            trace @ batchEvents (chunks (nat c) rest)))"
      by (simp only: append_assoc res ev)
    finally show ?thesis unfolding rest_def .
  qed
qed

lemma enrichLoop_unsettled:
  assumes "i < int (length ids)"
    and "promiseAll (map (\<lambda>x. enrichCompany env x d opts) (slice ids i (i + c))) = p"
    and "p = Pending \<or> p = Rejected e"
  shows "enrichLoop env ids d opts c i results trace = Some (if p = Pending then Pending else Rejected e)"
  using assms by (subst enrichLoop.simps) (auto simp: Let_def)


lemma concat_chunks: "concat (chunks k xs) = xs"
  by (induction k xs rule: chunks.induct) simp_all

lemma chunks_sizes:
  assumes "0 < k"
  shows "\<forall>b \<in> set (chunks k xs). b \<noteq> [] \<and> length b \<le> k"
  using assms by (induction k xs rule: chunks.induct) auto

lemma chunks_full:
  assumes "0 < k"
  shows "\<forall>b \<in> set (butlast (chunks k xs)). length b = k"
  using assms
proof (induction k xs rule: chunks.induct)
  case (1 k)
  then show ?case by simp
next
  case (2 k x xs)
  show ?case
  proof (cases "drop (k - 1) xs = []")
    case True
    then show ?thesis by simp
  next
    case False
    then have "k - 1 < length xs" by simp
    then have "length (x # take (k - 1) xs) = k" using 2(2) by simp
    with False 2 show ?thesis by (simp add: chunks_Nil_iff)
  qed
qed

lemma delays_between: "length (filter isDelay (batchEvents bs)) = length bs - 1"
  by (induction bs rule: batchEvents.induct) (simp_all add: isDelay_def)

lemma services_known:
  assumes "x \<noteq> ''unknown.example''" and "0 < permits options"
    and "flag (includeCrustData options)"
  shows "enrichCompany services x isDomain options
     = Fulfilled \<lparr>company = Some \<lparr>co_name = x, co_domain = x\<rparr>,
         er_ticker = None, tickerConfidence = None, tickerMethod = None, er_isPublic = None,
         secData = None, secSignals = None, exaData = None, firecrawlData = None,
         success = True, error = None\<rparr>"
  using assms
  by (simp add: enrichCompany_def enrichRun_def buildTasks_def initialResult_def truthy_def
      companyNameOf_def hasFilings_def baseProfileTask_def logCall_def services_def finalize_def
      Let_def)

text \<open>
  Claim C10. With a positive batch size (the concurrency limit, 3 when it is unset or
  zero) and enrichments that all fulfil, bulk enrichment terminates and returns the
  results in input order; its log is that of the batch plan: consecutive batches of
  that size, the last possibly shorter, each issued only after the one before has
  settled and a delay of 2000 ms has passed, with one delay fewer than batches. Three
  identifiers with batch size 3 give one batch and no delay; with batch size 1 they
  give three batches and two delays. At any iteration, a batch that does not settle,
  or that is rejected, is the last thing the loop does: no further batch is issued.
\<close>

theorem enrichCompanies_batches:
  "(0 < batchSize options
      \<and> (\<forall>x \<in> set identifiers. enrichCompany env x isDomain options = Fulfilled (f x))
     \<longrightarrow> enrichCompanies env identifiers isDomain options
           = Some (Fulfilled (map f identifiers,
                              batchEvents (chunks (nat (batchSize options)) identifiers))))
   \<and> (0 < k \<longrightarrow>
         concat (chunks k xs) = xs
         \<and> (\<forall>b \<in> set (chunks k xs). b \<noteq> [] \<and> length b \<le> k)
         \<and> (\<forall>b \<in> set (butlast (chunks k xs)). length b = k)
         \<and> length (filter isDelay (batchEvents (chunks k xs))) = length (chunks k xs) - 1)
   \<and> batchSize options
       = (case maxConcurrency options of None \<Rightarrow> 3 | Some n \<Rightarrow> if n = 0 then 3 else n)
   \<and> batchEvents (chunks 3 [a, b, c]) = [BatchIssued [a, b, c], BatchSettled [a, b, c]]
   \<and> batchEvents (chunks 1 [a, b, c])
       = [BatchIssued [a], BatchSettled [a], Delay 2000,
          BatchIssued [b], BatchSettled [b], Delay 2000,
          BatchIssued [c], BatchSettled [c]]
   \<and> (i < int (length identifiers)
        \<and> promiseAll (map (\<lambda>x. enrichCompany env x isDomain options)
                         (slice identifiers i (i + concurrency))) = Pending
       \<longrightarrow> enrichLoop env identifiers isDomain options concurrency i results trace = Some Pending)
   \<and> (i < int (length identifiers)
        \<and> promiseAll (map (\<lambda>x. enrichCompany env x isDomain options)
                         (slice identifiers i (i + concurrency))) = Rejected e
       \<longrightarrow> enrichLoop env identifiers isDomain options concurrency i results trace
           = Some (Rejected e))"
proof (intro conjI impI)
  assume a: "0 < batchSize options
      \<and> (\<forall>x \<in> set identifiers. enrichCompany env x isDomain options = Fulfilled (f x))"
  from enrichLoop_fulfils[OF conjunct1[OF a] conjunct2[OF a], of 0 "[]" "[]"]
  show "enrichCompanies env identifiers isDomain options
           = Some (Fulfilled (map f identifiers,
                              batchEvents (chunks (nat (batchSize options)) identifiers)))"
    by (simp add: enrichCompanies_def)
next
  assume k: "0 < k"
  show "concat (chunks k xs) = xs" by (rule concat_chunks)
  show "\<forall>b \<in> set (chunks k xs). b \<noteq> [] \<and> length b \<le> k" by (rule chunks_sizes[OF k])
  show "\<forall>b \<in> set (butlast (chunks k xs)). length b = k" by (rule chunks_full[OF k])
  show "length (filter isDelay (batchEvents (chunks k xs))) = length (chunks k xs) - 1"
    by (rule delays_between)
next
  show "batchSize options
       = (case maxConcurrency options of None \<Rightarrow> 3 | Some n \<Rightarrow> if n = 0 then 3 else n)"
    by (simp add: batchSize_def)
  show "batchEvents (chunks 3 [a, b, c]) = [BatchIssued [a, b, c], BatchSettled [a, b, c]]"
    by (simp add: numeral_eq_Suc)
  show "batchEvents (chunks 1 [a, b, c])
       = [BatchIssued [a], BatchSettled [a], Delay 2000,
          BatchIssued [b], BatchSettled [b], Delay 2000,
          BatchIssued [c], BatchSettled [c]]"
    by simp
next
  assume a: "i < int (length identifiers)
        \<and> promiseAll (map (\<lambda>x. enrichCompany env x isDomain options)
                         (slice identifiers i (i + concurrency))) = Pending"
  from enrichLoop_unsettled[OF conjunct1[OF a] conjunct2[OF a], of undefined]
  show "enrichLoop env identifiers isDomain options concurrency i results trace = Some Pending"
    by simp
next
  assume a: "i < int (length identifiers)
        \<and> promiseAll (map (\<lambda>x. enrichCompany env x isDomain options)
                         (slice identifiers i (i + concurrency))) = Rejected e"
  from enrichLoop_unsettled[OF conjunct1[OF a] conjunct2[OF a], of e]
  show "enrichLoop env identifiers isDomain options concurrency i results trace
           = Some (Rejected e)"
    by simp
qed


lemma sample_unsettled:
  "promiseAll (map (\<lambda>x. enrichCompany services x True (defaults\<lparr>maxConcurrency := Some (- 1)\<rparr>))
     (slice [''google.com'', ''microsoft.com'', ''apple.com''] 0 (0 + (- 1)))) = Pending"
  by code_simp

lemma sample_rejected:
  "promiseAll (map (\<lambda>x. enrichCompany (services\<lparr>timerWins := (\<lambda>x t. x = ''microsoft.com'')\<rparr>)
                         x True defaults)
     (slice [''google.com'', ''microsoft.com'', ''apple.com''] 0 (0 + 3)))
   = Rejected (Error ''Task timeout'')"
  by code_simp

theorem enrichCompanies_batches_witness:
  "enrichCompanies services [''google.com'', ''microsoft.com'', ''apple.com''] True defaults
     = Some (Fulfilled
        (map (\<lambda>x. \<lparr>company = Some \<lparr>co_name = x, co_domain = x\<rparr>,
                   er_ticker = None, tickerConfidence = None, tickerMethod = None,
                   er_isPublic = None, secData = None, secSignals = None, exaData = None,
                   firecrawlData = None, success = True, error = None\<rparr>)
           [''google.com'', ''microsoft.com'', ''apple.com''],
         [BatchIssued [''google.com'', ''microsoft.com'', ''apple.com''],
          BatchSettled [''google.com'', ''microsoft.com'', ''apple.com'']]))
   \<and> enrichCompanies services [''google.com'', ''microsoft.com'', ''apple.com''] True
       (defaults\<lparr>maxConcurrency := Some 1\<rparr>)
     = Some (Fulfilled
        (map (\<lambda>x. \<lparr>company = Some \<lparr>co_name = x, co_domain = x\<rparr>,
                   er_ticker = None, tickerConfidence = None, tickerMethod = None,
                   er_isPublic = None, secData = None, secSignals = None, exaData = None,
                   firecrawlData = None, success = True, error = None\<rparr>)
           [''google.com'', ''microsoft.com'', ''apple.com''],
         [BatchIssued [''google.com''], BatchSettled [''google.com''], Delay 2000,
          BatchIssued [''microsoft.com''], BatchSettled [''microsoft.com''], Delay 2000,
          BatchIssued [''apple.com''], BatchSettled [''apple.com'']]))
   \<and> concat (chunks 2 [''google.com'', ''microsoft.com'', ''apple.com''])
       = [''google.com'', ''microsoft.com'', ''apple.com'']
   \<and> enrichLoop services [''google.com'', ''microsoft.com'', ''apple.com''] True
         (defaults\<lparr>maxConcurrency := Some (- 1)\<rparr>) (- 1) 0 [] [] = Some Pending
   \<and> enrichLoop (services\<lparr>timerWins := (\<lambda>x t. x = ''microsoft.com'')\<rparr>)
         [''google.com'', ''microsoft.com'', ''apple.com''] True defaults 3 0 [] []
       = Some (Rejected (Error ''Task timeout''))"
proof -
  let ?ids = "[''google.com'', ''microsoft.com'', ''apple.com'']"
  let ?f = "\<lambda>x. \<lparr>company = Some \<lparr>co_name = x, co_domain = x\<rparr>,
                   er_ticker = None, tickerConfidence = None, tickerMethod = None,
                   er_isPublic = None, secData = None, secSignals = None, exaData = None,
                   firecrawlData = None, success = True, error = None\<rparr>"
  let ?one = "defaults\<lparr>maxConcurrency := Some 1\<rparr>"
  let ?neg = "defaults\<lparr>maxConcurrency := Some (- 1)\<rparr>"
  let ?slow = "services\<lparr>timerWins := (\<lambda>x t. x = ''microsoft.com'')\<rparr>"
  have b3: "0 < batchSize defaults" and n3: "nat (batchSize defaults) = 3"
    by (simp_all add: batchSize_def defaults_def)
  have b1: "0 < batchSize ?one" and n1: "nat (batchSize ?one) = 1"
    by (simp_all add: batchSize_def defaults_def)
  have all3: "\<forall>x \<in> set ?ids. enrichCompany services x True defaults = Fulfilled (?f x)"
    by (simp add: services_known permits_def flag_def defaults_def)
  have all1: "\<forall>x \<in> set ?ids. enrichCompany services x True ?one = Fulfilled (?f x)"
    by (simp add: services_known permits_def flag_def defaults_def)
  note t3 = enrichCompanies_batches[of defaults ?ids services True ?f 2 ?ids
      "''google.com''" "''microsoft.com''" "''apple.com''" 0 3 "[]" "[]" "Error ''Task timeout''"]
  note t1 = enrichCompanies_batches[of ?one ?ids services True ?f 2 ?ids
      "''google.com''" "''microsoft.com''" "''apple.com''" 0 3 "[]" "[]" "Error ''Task timeout''"]
  note tn = enrichCompanies_batches[of ?neg ?ids services True ?f 2 ?ids
      "''google.com''" "''microsoft.com''" "''apple.com''" 0 "- 1" "[]" "[]" "Error ''Task timeout''"]
  note ts = enrichCompanies_batches[of defaults ?ids ?slow True ?f 2 ?ids
      "''google.com''" "''microsoft.com''" "''apple.com''" 0 3 "[]" "[]" "Error ''Task timeout''"]
  have ev3: "batchEvents (chunks 3 ?ids) = [BatchIssued ?ids, BatchSettled ?ids]"
    using t3 by blast
  have ev1: "batchEvents (chunks 1 ?ids)
       = [BatchIssued [''google.com''], BatchSettled [''google.com''], Delay 2000,
          BatchIssued [''microsoft.com''], BatchSettled [''microsoft.com''], Delay 2000,
          BatchIssued [''apple.com''], BatchSettled [''apple.com'']]"
    using t1 by blast
  have r3: "enrichCompanies services ?ids True defaults
      = Some (Fulfilled (map ?f ?ids, [BatchIssued ?ids, BatchSettled ?ids]))"
    using t3[THEN conjunct1, THEN mp, OF conjI[OF b3 all3]] by (simp only: n3 ev3)
  have r1: "enrichCompanies services ?ids True ?one
      = Some (Fulfilled (map ?f ?ids,
         [BatchIssued [''google.com''], BatchSettled [''google.com''], Delay 2000,
          BatchIssued [''microsoft.com''], BatchSettled [''microsoft.com''], Delay 2000,
          BatchIssued [''apple.com''], BatchSettled [''apple.com'']]))"
    using t1[THEN conjunct1, THEN mp, OF conjI[OF b1 all1]] by (simp only: n1 ev1)
  have two: "(0::nat) < 2" by simp
  have cc: "concat (chunks 2 ?ids) = ?ids"
    using t3[THEN conjunct2, THEN conjunct1, THEN mp, OF two] by blast
  have lt: "(0::int) < int (length ?ids)" by simp
  have pend: "enrichLoop services ?ids True ?neg (- 1) 0 [] [] = Some Pending"
    using tn lt sample_unsettled by blast
  have rej: "enrichLoop ?slow ?ids True defaults 3 0 [] [] = Some (Rejected (Error ''Task timeout''))"
    using ts lt sample_rejected by blast
  from r3 r1 cc pend rej show ?thesis by blast
qed

end
